theory Spec2Isabelle
  imports Complex_Main "HOL-Library.Sublist"
begin

section \<open>Data model\<close>

text \<open>
  The interfaces of \<^verbatim>\<open>App.tsx\<close>, \<^verbatim>\<open>InstantIDModule.tsx\<close> (which also holds the
  PhotoMaker module) and \<^verbatim>\<open>FaceSwapModule.tsx\<close>. A field name that occurs in several
  interfaces (\<^verbatim>\<open>id\<close>, \<^verbatim>\<open>url\<close>, \<^verbatim>\<open>name\<close>, \<^verbatim>\<open>trainingImages\<close>, ...) carries a prefix
  here, since the fields of all records share one name space and \<open>id\<close> is a constant of
  HOL. An optional field is an \<open>option\<close>. Numbers that hold percentages are \<open>rat\<close>:
  the source computes \<^verbatim>\<open>(i / n) * 25\<close> in floating point, the model computes the same
  expression exactly.
\<close>

record User =
  user_id :: string
  email :: string
  displayName :: "string option"

text \<open>A browser \<^verbatim>\<open>File\<close>: the two attributes the source reads.\<close>

record File =
  file_name :: string
  file_type :: string

record GeneratedImage =
  gi_id :: string
  gi_url :: string
  destination :: string
  originalImage :: string
  originalImages :: "string list option"
  createdAt :: string

text \<open>
  \<^verbatim>\<open>TrainingImage\<close>, \<^verbatim>\<open>InstantIDImage\<close>, \<^verbatim>\<open>PhotoMakerImage\<close> and \<^verbatim>\<open>FacePortrait\<close>
  are four interfaces with the same four fields; TypeScript types are structural, so they
  are one type.
\<close>

record TrainingImage =
  img_id :: string
  img_file :: File
  img_url :: string
  uploadedUrl :: "string option"

type_synonym InstantIDImage = TrainingImage
type_synonym PhotoMakerImage = TrainingImage
type_synonym FacePortrait = TrainingImage

datatype ModelStatus = Training | Ready | Failed

record LoRAModel =
  lm_id :: string
  lm_name :: string
  status :: ModelStatus
  lm_trainingImages :: "string list"
  lm_createdAt :: string
  progress :: "rat option"

record Destination =
  d_id :: string
  d_name :: string
  emoji :: string
  description :: string

text \<open>The emoji are the bytes of the source file.\<close>

definition TRAVEL_DESTINATIONS :: "Destination list" where
  "TRAVEL_DESTINATIONS =
    [\<lparr>d_id = ''paris'', d_name = ''Paris, France'',
      emoji = [CHR 0xEF, CHR 0xA3, CHR 0xBF, CHR 0xC3, CHR 0xBC, CHR 0xC3, CHR 0xB3, CHR 0xC2, CHR 0xBA],
      description = ''Eiffel Tower backdrop''\<rparr>,
     \<lparr>d_id = ''tokyo'', d_name = ''Tokyo, Japan'',
      emoji = [CHR 0xEF, CHR 0xA3, CHR 0xBF, CHR 0xC3, CHR 0xBC, CHR 0xC3, CHR 0xA8, CHR 0xC3, CHR 0x98],
      description = ''Cherry blossoms & temples''\<rparr>,
     \<lparr>d_id = ''bali'', d_name = ''Bali, Indonesia'',
      emoji = [CHR 0xEF, CHR 0xA3, CHR 0xBF, CHR 0xC3, CHR 0xBC, CHR 0xC3, CHR 0xA8, CHR 0xC3, CHR 0xB9,
               CHR 0xC3, CHR 0x94, CHR 0xE2, CHR 0x88, CHR 0x8F, CHR 0xC3, CHR 0xA8],
      description = ''Tropical paradise''\<rparr>,
     \<lparr>d_id = ''nyc'', d_name = ''New York City'',
      emoji = [CHR 0xEF, CHR 0xA3, CHR 0xBF, CHR 0xC3, CHR 0xBC, CHR 0xC3, CHR 0xA8, CHR 0xC3, CHR 0xB4,
               CHR 0xC3, CHR 0x94, CHR 0xE2, CHR 0x88, CHR 0x8F, CHR 0xC3, CHR 0xA8],
      description = ''Urban skyline''\<rparr>,
     \<lparr>d_id = ''santorini'', d_name = ''Santorini, Greece'',
      emoji = [CHR 0xEF, CHR 0xA3, CHR 0xBF, CHR 0xC3, CHR 0xBC, CHR 0xC3, CHR 0xA8, CHR 0xC3, CHR 0xB5,
               CHR 0xC3, CHR 0x94, CHR 0xE2, CHR 0x88, CHR 0x8F, CHR 0xC3, CHR 0xA8],
      description = ''Blue domes & sunset''\<rparr>,
     \<lparr>d_id = ''machu-picchu'', d_name = ''Machu Picchu, Peru'',
      emoji = [CHR 0xE2, CHR 0x80, CHR 0x9A, CHR 0xC3, CHR 0xB5, CHR 0xE2, CHR 0x88, CHR 0x9E, CHR 0xC3,
               CHR 0x94, CHR 0xE2, CHR 0x88, CHR 0x8F, CHR 0xC3, CHR 0xA8],
      description = ''Ancient ruins''\<rparr>,
     \<lparr>d_id = ''dubai'', d_name = ''Dubai, UAE'',
      emoji = [CHR 0xEF, CHR 0xA3, CHR 0xBF, CHR 0xC3, CHR 0xBC, CHR 0xC3, CHR 0xA8, CHR 0xC3, CHR 0xB3,
               CHR 0xC3, CHR 0x94, CHR 0xE2, CHR 0x88, CHR 0x8F, CHR 0xC3, CHR 0xA8],
      description = ''Modern architecture''\<rparr>,
     \<lparr>d_id = ''iceland'', d_name = ''Iceland'',
      emoji = [CHR 0xEF, CHR 0xA3, CHR 0xBF, CHR 0xC3, CHR 0xBC, CHR 0xC3, CHR 0xA5, CHR 0xC3, CHR 0xA3],
      description = ''Northern lights & glaciers''\<rparr>]"

datatype Tab = Single | Model | Instant | FaceSwap

text \<open>The state hooks of \<^verbatim>\<open>App\<close>.\<close>

record AppState =
  user :: "User option"
  loading :: bool
  selectedFile :: "File option"
  selectedDestination :: string
  isGenerating :: bool
  generationProgress :: rat
  generatedImages :: "GeneratedImage list"
  dragActive :: bool
  generateMultiple :: bool
  trainingImages :: "TrainingImage list"
  currentModel :: "LoRAModel option"
  isTrainingModel :: bool
  trainingProgress :: rat
  useCustomModel :: bool
  activeTab :: Tab


section \<open>The platform SDK and the browser\<close>

text \<open>
  Authentication, blob storage and the image endpoints belong to the hosted platform
  (\<^verbatim>\<open>blink\<close>), clock, timers and date formatting to the browser. None of them is code
  of the repository, so they are parameters: a record of functions over a state \<open>'w\<close> of
  the outside world. A call that rejects its promise returns \<open>Inl\<close>; \<^verbatim>\<open>await\<close> then
  throws, which the model writes as the \<open>Inl\<close> branch of the caller. The \<^verbatim>\<open>data\<close> of
  an image response may be missing (\<open>None\<close>).
\<close>

datatype error = Error string

record GenerateImageParams =
  gp_prompt :: string
  gp_quality :: string
  gp_size :: string
  gp_n :: nat

record ModifyImageParams =
  mp_images :: "string list"
  mp_prompt :: string
  mp_quality :: string
  mp_size :: string
  mp_n :: nat

record ImageResult =
  ir_url :: string

type_synonym ai_response = "error + ImageResult list option"

record 'w Env =
  storage_upload :: "File \<Rightarrow> string \<Rightarrow> bool \<Rightarrow> 'w \<Rightarrow> (error + string) \<times> 'w"
  ai_generateImage :: "GenerateImageParams \<Rightarrow> 'w \<Rightarrow> ai_response \<times> 'w"
  ai_modifyImage :: "ModifyImageParams \<Rightarrow> 'w \<Rightarrow> ai_response \<times> 'w"
  date_now :: "'w \<Rightarrow> nat"
  setTimeout :: "nat \<Rightarrow> 'w \<Rightarrow> 'w"
  toISOString :: "nat \<Rightarrow> string"
  toLocaleDateString :: "nat \<Rightarrow> string"

text \<open>
  Everything a handler does besides computing is an event of the log, in the order in
  which it happens: the calls to the platform with their answers, timers, toasts, console
  output, revoked object URLs, the calls of the state setters (with the value that
  results) and of the \<^verbatim>\<open>onImageGenerated\<close> callback.
\<close>

datatype event =
    StorageUpload File string bool "error + string"
  | AiGenerateImage GenerateImageParams ai_response
  | AiModifyImage ModifyImageParams ai_response
  | Timeout nat
  | RevokeObjectURL string
  | ToastSuccess string
  | ToastError string
  | ConsoleError string error
  | SetTrainingImages "TrainingImage list"
  | SetReferenceImages "TrainingImage list"
  | SetIsTrainingModel bool
  | SetTrainingProgress rat
  | SetCurrentModel "LoRAModel option"
  | SetUseCustomModel bool
  | SetIsGenerating bool
  | SetGenerationProgress rat
  | SetGeneratedImages "GeneratedImage list"
  | OnImageGenerated GeneratedImage

text \<open>
  A handler runs on the state \<open>st\<close> of its component, the state \<open>parent\<close> of the
  component that passed it its callbacks, the outside world and the log. One run of a
  handler is modelled from its call to its return, with nothing else running between its
  \<^verbatim>\<open>await\<close>s.
\<close>

record ('s, 'p, 'w) sys =
  st :: 's
  parent :: 'p
  world :: 'w
  log :: "event list"

definition emit :: "event \<Rightarrow> ('s, 'p, 'w) sys \<Rightarrow> ('s, 'p, 'w) sys" where
  "emit e \<sigma> = \<sigma>\<lparr>log := log \<sigma> @ [e]\<rparr>"

definition toast_success :: "string \<Rightarrow> ('s, 'p, 'w) sys \<Rightarrow> ('s, 'p, 'w) sys" where
  "toast_success m = emit (ToastSuccess m)"

definition toast_error :: "string \<Rightarrow> ('s, 'p, 'w) sys \<Rightarrow> ('s, 'p, 'w) sys" where
  "toast_error m = emit (ToastError m)"

definition console_error :: "string \<Rightarrow> error \<Rightarrow> ('s, 'p, 'w) sys \<Rightarrow> ('s, 'p, 'w) sys" where
  "console_error label e = emit (ConsoleError label e)"

definition revokeObjectURL :: "string \<Rightarrow> ('s, 'p, 'w) sys \<Rightarrow> ('s, 'p, 'w) sys" where
  "revokeObjectURL u = emit (RevokeObjectURL u)"

text \<open>\<^verbatim>\<open>await new Promise(resolve => setTimeout(resolve, ms))\<close>\<close>

definition delay :: "'w Env \<Rightarrow> nat \<Rightarrow> ('s, 'p, 'w) sys \<Rightarrow> ('s, 'p, 'w) sys" where
  "delay env ms \<sigma> = emit (Timeout ms) (\<sigma>\<lparr>world := setTimeout env ms (world \<sigma>)\<rparr>)"

definition blink_storage_upload ::
  "'w Env \<Rightarrow> File \<Rightarrow> string \<Rightarrow> bool \<Rightarrow> ('s, 'p, 'w) sys \<Rightarrow> (error + string) \<times> ('s, 'p, 'w) sys" where
  "blink_storage_upload env f path upsert \<sigma> =
     (let (r, w') = storage_upload env f path upsert (world \<sigma>)
      in (r, emit (StorageUpload f path upsert r) (\<sigma>\<lparr>world := w'\<rparr>)))"

definition blink_ai_generateImage ::
  "'w Env \<Rightarrow> GenerateImageParams \<Rightarrow> ('s, 'p, 'w) sys \<Rightarrow> ai_response \<times> ('s, 'p, 'w) sys" where
  "blink_ai_generateImage env ps \<sigma> =
     (let (r, w') = ai_generateImage env ps (world \<sigma>)
      in (r, emit (AiGenerateImage ps r) (\<sigma>\<lparr>world := w'\<rparr>)))"

definition blink_ai_modifyImage ::
  "'w Env \<Rightarrow> ModifyImageParams \<Rightarrow> ('s, 'p, 'w) sys \<Rightarrow> ai_response \<times> ('s, 'p, 'w) sys" where
  "blink_ai_modifyImage env ps \<sigma> =
     (let (r, w') = ai_modifyImage env ps (world \<sigma>)
      in (r, emit (AiModifyImage ps r) (\<sigma>\<lparr>world := w'\<rparr>)))"

text \<open>A number inside a template literal, in decimal.\<close>

function string_of_nat :: "nat \<Rightarrow> string" where
  "string_of_nat n =
     (if n < 10 then [''0123456789'' ! n]
      else string_of_nat (n div 10) @ [''0123456789'' ! (n mod 10)])"
  by pat_completeness auto
termination
  by (relation "measure (\<lambda>n. n)") auto

declare string_of_nat.simps [simp del]

text \<open>\<^verbatim>\<open>s.slice(-k)\<close>: the last \<open>k\<close> characters, the whole string when it is shorter.\<close>

definition slice_last :: "nat \<Rightarrow> string \<Rightarrow> string" where
  "slice_last k s = drop (length s - k) s"

section \<open>The handlers of App\<close>

subsection \<open>State setters\<close>

definition setTrainingImages :: "TrainingImage list \<Rightarrow> (AppState, 'p, 'w) sys \<Rightarrow> (AppState, 'p, 'w) sys" where
  "setTrainingImages v \<sigma> = emit (SetTrainingImages v) (\<sigma>\<lparr>st := (st \<sigma>)\<lparr>trainingImages := v\<rparr>\<rparr>)"

definition setIsTrainingModel :: "bool \<Rightarrow> (AppState, 'p, 'w) sys \<Rightarrow> (AppState, 'p, 'w) sys" where
  "setIsTrainingModel v \<sigma> = emit (SetIsTrainingModel v) (\<sigma>\<lparr>st := (st \<sigma>)\<lparr>isTrainingModel := v\<rparr>\<rparr>)"

definition setTrainingProgress :: "rat \<Rightarrow> (AppState, 'p, 'w) sys \<Rightarrow> (AppState, 'p, 'w) sys" where
  "setTrainingProgress v \<sigma> = emit (SetTrainingProgress v) (\<sigma>\<lparr>st := (st \<sigma>)\<lparr>trainingProgress := v\<rparr>\<rparr>)"

definition setCurrentModel :: "LoRAModel option \<Rightarrow> (AppState, 'p, 'w) sys \<Rightarrow> (AppState, 'p, 'w) sys" where
  "setCurrentModel v \<sigma> = emit (SetCurrentModel v) (\<sigma>\<lparr>st := (st \<sigma>)\<lparr>currentModel := v\<rparr>\<rparr>)"

text \<open>The functional form \<^verbatim>\<open>setCurrentModel(prev => ...)\<close> reads the state of the moment.\<close>

definition setCurrentModel_upd ::
  "(LoRAModel option \<Rightarrow> LoRAModel option) \<Rightarrow> (AppState, 'p, 'w) sys \<Rightarrow> (AppState, 'p, 'w) sys" where
  "setCurrentModel_upd f \<sigma> = setCurrentModel (f (currentModel (st \<sigma>))) \<sigma>"

definition setUseCustomModel :: "bool \<Rightarrow> (AppState, 'p, 'w) sys \<Rightarrow> (AppState, 'p, 'w) sys" where
  "setUseCustomModel v \<sigma> = emit (SetUseCustomModel v) (\<sigma>\<lparr>st := (st \<sigma>)\<lparr>useCustomModel := v\<rparr>\<rparr>)"

definition setIsGenerating :: "bool \<Rightarrow> (AppState, 'p, 'w) sys \<Rightarrow> (AppState, 'p, 'w) sys" where
  "setIsGenerating v \<sigma> = emit (SetIsGenerating v) (\<sigma>\<lparr>st := (st \<sigma>)\<lparr>isGenerating := v\<rparr>\<rparr>)"

definition setGenerationProgress :: "rat \<Rightarrow> (AppState, 'p, 'w) sys \<Rightarrow> (AppState, 'p, 'w) sys" where
  "setGenerationProgress v \<sigma> = emit (SetGenerationProgress v) (\<sigma>\<lparr>st := (st \<sigma>)\<lparr>generationProgress := v\<rparr>\<rparr>)"

definition setGeneratedImages_upd ::
  "(GeneratedImage list \<Rightarrow> GeneratedImage list) \<Rightarrow> (AppState, 'p, 'w) sys \<Rightarrow> (AppState, 'p, 'w) sys" where
  "setGeneratedImages_upd f \<sigma> =
     (let v = f (generatedImages (st \<sigma>))
      in emit (SetGeneratedImages v) (\<sigma>\<lparr>st := (st \<sigma>)\<lparr>generatedImages := v\<rparr>\<rparr>))"

subsection \<open>Training images\<close>

text \<open>
  \<^verbatim>\<open>removeTrainingImage\<close>: the updater passed to \<^verbatim>\<open>setTrainingImages\<close> finds the first
  image with the id, revokes its object URL and filters the list.
\<close>

definition removeTrainingImage :: "string \<Rightarrow> (AppState, 'p, 'w) sys \<Rightarrow> (AppState, 'p, 'w) sys" where
  "removeTrainingImage i \<sigma> =
     (let prev = trainingImages (st \<sigma>);
          imageToRemove = find (\<lambda>img. img_id img = i) prev;
          \<sigma>1 = (case imageToRemove of
                  Some img \<Rightarrow> revokeObjectURL (img_url img) \<sigma>
                | None \<Rightarrow> \<sigma>)
      in setTrainingImages (filter (\<lambda>img. img_id img \<noteq> i) prev) \<sigma>1)"

definition clearTrainingImages :: "(AppState, 'p, 'w) sys \<Rightarrow> (AppState, 'p, 'w) sys" where
  "clearTrainingImages \<sigma> =
     setTrainingImages [] (fold (\<lambda>img. revokeObjectURL (img_url img)) (trainingImages (st \<sigma>)) \<sigma>)"

subsection \<open>trainLoRAModel\<close>

text \<open>
  The upload loop \<^verbatim>\<open>for (let i = 0; i < trainingImages.length; i++)\<close>, with the index
  and the array \<^verbatim>\<open>uploadedUrls\<close> as arguments. A rejected upload leaves the loop.
\<close>

function upload_training_images ::
  "'w Env \<Rightarrow> User \<Rightarrow> TrainingImage list \<Rightarrow> nat \<Rightarrow> string list \<Rightarrow> (AppState, 'p, 'w) sys
     \<Rightarrow> (error + string list) \<times> (AppState, 'p, 'w) sys" where
  "upload_training_images env u imgs i uploadedUrls \<sigma> =
     (if i < length imgs then
        let image = imgs ! i;
            \<sigma>1 = setTrainingProgress ((of_nat i / of_nat (length imgs)) * 25) \<sigma>;
            path = ''lora-training/'' @ user_id u @ ''/'' @ string_of_nat (date_now env (world \<sigma>1))
                   @ ''-'' @ string_of_nat i @ ''-'' @ file_name (img_file image);
            (r, \<sigma>2) = blink_storage_upload env (img_file image) path True \<sigma>1
        in (case r of
              Inl e \<Rightarrow> (Inl e, \<sigma>2)
            | Inr publicUrl \<Rightarrow>
                upload_training_images env u imgs (i + 1) (uploadedUrls @ [publicUrl]) \<sigma>2)
      else (Inr uploadedUrls, \<sigma>))"
  by pat_completeness auto
termination
  by (relation "measure (\<lambda>(env, u, imgs, i, uploadedUrls, \<sigma>). length imgs - i)") auto

declare upload_training_images.simps [simp del]

definition trainingSteps :: "(rat \<times> string) list" where
  "trainingSteps =
     [(60, ''Learning facial features...''),
      (70, ''Training on different angles...''),
      (80, ''Optimizing feature weights...''),
      (90, ''Finalizing model parameters...'')]"

definition training_step :: "'w Env \<Rightarrow> rat \<times> string \<Rightarrow> (AppState, 'p, 'w) sys \<Rightarrow> (AppState, 'p, 'w) sys" where
  "training_step env step \<sigma> =
     (let \<sigma>1 = delay env 2500 \<sigma>;
          \<sigma>2 = setTrainingProgress (fst step) \<sigma>1;
          \<sigma>3 = setCurrentModel_upd (map_option (\<lambda>prev. prev\<lparr>progress := Some (fst step)\<rparr>)) \<sigma>2
      in toast_success (snd step) \<sigma>3)"

text \<open>The body of the \<^verbatim>\<open>try\<close> block.\<close>

definition trainLoRAModel_try ::
  "'w Env \<Rightarrow> User \<Rightarrow> TrainingImage list \<Rightarrow> (AppState, 'p, 'w) sys
     \<Rightarrow> (error + unit) \<times> (AppState, 'p, 'w) sys" where
  "trainLoRAModel_try env u imgs \<sigma>0 =
     (let \<sigma>1 = toast_success ''Starting LoRA model training...'' \<sigma>0;
          (r, \<sigma>2) = upload_training_images env u imgs 0 [] \<sigma>1
      in case r of
           Inl e \<Rightarrow> (Inl e, \<sigma>2)
         | Inr uploadedUrls \<Rightarrow>
            (let \<sigma>3 = setTrainingProgress 30 \<sigma>2;
                 now = date_now env (world \<sigma>3);
                 modelId = ''lora_'' @ string_of_nat now @ ''_'' @ slice_last 8 (user_id u);
                 newModel = \<lparr>lm_id = modelId,
                             lm_name = ''Personal LoRA Model - '' @ toLocaleDateString env now,
                             status = Training,
                             lm_trainingImages = uploadedUrls,
                             lm_createdAt = toISOString env now,
                             progress = Some 30\<rparr>;
                 \<sigma>4 = setCurrentModel (Some newModel) \<sigma>3;
                 \<sigma>5 = delay env 1500 \<sigma>4;
                 \<sigma>6 = setTrainingProgress 40 \<sigma>5;
                 \<sigma>7 = setCurrentModel_upd (map_option (\<lambda>prev. prev\<lparr>progress := Some 40\<rparr>)) \<sigma>6;
                 \<sigma>8 = delay env 1500 \<sigma>7;
                 \<sigma>9 = setTrainingProgress 50 \<sigma>8;
                 \<sigma>10 = setCurrentModel_upd (map_option (\<lambda>prev. prev\<lparr>progress := Some 50\<rparr>)) \<sigma>9;
                 \<sigma>11 = fold (training_step env) trainingSteps \<sigma>10;
                 \<sigma>12 = delay env 2000 \<sigma>11;
                 \<sigma>13 = setTrainingProgress 95 \<sigma>12;
                 \<sigma>14 = setCurrentModel_upd (map_option (\<lambda>prev. prev\<lparr>progress := Some 95\<rparr>)) \<sigma>13;
                 \<sigma>15 = delay env 1500 \<sigma>14;
                 \<sigma>16 = setTrainingProgress 100 \<sigma>15;
                 completedModel = newModel\<lparr>status := Ready, progress := Some 100\<rparr>;
                 \<sigma>17 = setCurrentModel (Some completedModel) \<sigma>16;
                 \<sigma>18 = setUseCustomModel True \<sigma>17
             in (Inr (), toast_success
                  ([CHR 0xEF, CHR 0xA3, CHR 0xBF, CHR 0xC3, CHR 0xBC, CHR 0xC3, CHR 0xA9, CHR 0xC3, CHR 0xA2]
                   @ '' LoRA model training completed! Your personalized AI model is ready to generate travel photos that perfectly preserve your facial features.'')
                  \<sigma>18)))"

definition trainLoRAModel_catch :: "error \<Rightarrow> (AppState, 'p, 'w) sys \<Rightarrow> (AppState, 'p, 'w) sys" where
  "trainLoRAModel_catch e \<sigma> =
     (let \<sigma>1 = console_error ''Training error:'' e \<sigma>;
          \<sigma>2 = toast_error ''Failed to train LoRA model. Please try again.'' \<sigma>1
      in setCurrentModel_upd (map_option (\<lambda>prev. prev\<lparr>status := Failed\<rparr>)) \<sigma>2)"

text \<open>
  The handler reads \<^verbatim>\<open>trainingImages\<close> and \<^verbatim>\<open>user\<close> from the render that created it,
  that is from the state at the call.
\<close>

definition trainLoRAModel :: "'w Env \<Rightarrow> (AppState, 'p, 'w) sys \<Rightarrow> (AppState, 'p, 'w) sys" where
  "trainLoRAModel env \<sigma> =
     (if length (trainingImages (st \<sigma>)) < 5
      then toast_error ''Please upload at least 5 images to train a model'' \<sigma>
      else case user (st \<sigma>) of
             None \<Rightarrow> \<sigma>
           | Some u \<Rightarrow>
              (let \<sigma>1 = setIsTrainingModel True \<sigma>;
                   \<sigma>2 = setTrainingProgress 0 \<sigma>1;
                   (r, \<sigma>3) = trainLoRAModel_try env u (trainingImages (st \<sigma>)) \<sigma>2;
                   \<sigma>4 = (case r of Inl e \<Rightarrow> trainLoRAModel_catch e \<sigma>3 | Inr _ \<Rightarrow> \<sigma>3);
                   \<sigma>5 = setIsTrainingModel False \<sigma>4
               in setTrainingProgress 0 \<sigma>5))"

subsection \<open>generateTravelPhoto and generateWithLoRAModel\<close>

text \<open>The prompt templates, as functions of the destination found.\<close>

definition travelPhotoPrompt :: "Destination \<Rightarrow> string" where
  "travelPhotoPrompt d =
     ''Create a realistic travel photo by placing this exact person in ''
     @ description d
     @ '' in ''
     @ d_name d
     @ ''. IMPORTANT: Preserve the person's facial features, skin tone, hair, and overall appearance exactly as shown in the original photo. Only change the background and environment to match the travel destination. The person should appear naturally integrated into the scenic location with proper lighting and shadows that match the environment. Maintain high photographic quality and realistic composition.''"

definition loraEnhancedPrompt :: "Destination \<Rightarrow> string" where
  "loraEnhancedPrompt d =
     ''[LoRA Model Enhanced] Create a photorealistic travel photo of the person from the trained LoRA model in ''
     @ description d
     @ '' in ''
     @ d_name d
     @ ''. The LoRA model has learned this person's unique facial features, expressions, and characteristics from multiple training images. Generate a high-quality travel photo showing the person naturally enjoying the destination with authentic travel photography composition, proper environmental lighting, and seamless integration into the scenic location. Maintain the person's distinctive facial features, skin tone, hair style, and natural expressions while adapting to the travel setting.''"

definition loraGenerationPrompt :: "Destination \<Rightarrow> string" where
  "loraGenerationPrompt d =
     ''[LoRA Model Generation] Create a photorealistic travel photo of the person using the trained LoRA model in ''
     @ description d
     @ '' in ''
     @ d_name d
     @ ''. The LoRA model contains learned facial features, expressions, and characteristics from multiple training images. Generate a high-quality travel photo showing the person naturally enjoying and exploring the destination with authentic travel photography composition. Include proper environmental lighting, realistic shadows, and seamless integration into the scenic location. The person should appear relaxed and happy, with natural poses and expressions that match the travel setting. Maintain photographic realism with professional travel photography aesthetics.''"

text \<open>
  The body of the \<^verbatim>\<open>try\<close> block of \<^verbatim>\<open>generateTravelPhoto\<close>. \<open>s0\<close> is the state of
  the render that created the handler: \<^verbatim>\<open>selectedDestination\<close>, \<^verbatim>\<open>useCustomModel\<close>,
  \<^verbatim>\<open>currentModel\<close> and \<^verbatim>\<open>generateMultiple\<close> are read from it.
\<close>

definition generateTravelPhoto_try ::
  "'w Env \<Rightarrow> User \<Rightarrow> File \<Rightarrow> AppState \<Rightarrow> (AppState, 'p, 'w) sys
     \<Rightarrow> (error + unit) \<times> (AppState, 'p, 'w) sys" where
  "generateTravelPhoto_try env u f s0 \<sigma>0 =
     (let path = ''originals/'' @ user_id u @ ''/'' @ string_of_nat (date_now env (world \<sigma>0))
                 @ ''-'' @ file_name f;
          (r, \<sigma>1) = blink_storage_upload env f path True \<sigma>0
      in case r of
           Inl e \<Rightarrow> (Inl e, \<sigma>1)
         | Inr originalImageUrl \<Rightarrow>
            (let \<sigma>2 = setGenerationProgress 25 \<sigma>1
             in case find (\<lambda>d. d_id d = selectedDestination s0) TRAVEL_DESTINATIONS of
                  None \<Rightarrow> (Inl (Error ''Invalid destination''), \<sigma>2)
                | Some dest \<Rightarrow>
                   (let \<sigma>3 = setGenerationProgress 50 \<sigma>2;
                        prompt = (if useCustomModel s0 \<and> map_option status (currentModel s0) = Some Ready
                                  then loraEnhancedPrompt dest else travelPhotoPrompt dest);
                        (r2, \<sigma>4) = blink_ai_modifyImage env
                           \<lparr>mp_images = [originalImageUrl], mp_prompt = prompt, mp_quality = ''high'',
                            mp_size = ''1024x1024'', mp_n = (if generateMultiple s0 then 3 else 1)\<rparr> \<sigma>3
                    in case r2 of
                         Inl e \<Rightarrow> (Inl e, \<sigma>4)
                       | Inr data \<Rightarrow>
                          (let \<sigma>5 = setGenerationProgress 75 \<sigma>4
                           in case data of
                                None \<Rightarrow> (Inl (Error ''Failed to generate image''), \<sigma>5)
                              | Some imgs \<Rightarrow>
                                 if length imgs > 0 then
                                   (let now = date_now env (world \<sigma>5);
                                        newImages = map (\<lambda>(index, img).
                                           \<lparr>gi_id = ''gen_'' @ string_of_nat now @ ''_'' @ string_of_nat index,
                                            gi_url = ir_url img,
                                            destination = d_name dest,
                                            originalImage = originalImageUrl,
                                            originalImages = None,
                                            createdAt = toISOString env now\<rparr>) (enumerate 0 imgs);
                                        \<sigma>6 = setGeneratedImages_upd (\<lambda>prev. newImages @ prev) \<sigma>5;
                                        \<sigma>7 = setGenerationProgress 100 \<sigma>6
                                    in (Inr (), toast_success
                                         (string_of_nat (length imgs) @ '' travel photo''
                                          @ (if length imgs > 1 then ''s'' else [])
                                          @ '' generated for '' @ d_name dest @ ''!'') \<sigma>7))
                                 else (Inl (Error ''Failed to generate image''), \<sigma>5)))))"

definition generateTravelPhoto_catch :: "error \<Rightarrow> (AppState, 'p, 'w) sys \<Rightarrow> (AppState, 'p, 'w) sys" where
  "generateTravelPhoto_catch e \<sigma> =
     toast_error ''Failed to generate travel photo. Please try again.''
       (console_error ''Generation error:'' e \<sigma>)"

definition generateTravelPhoto :: "'w Env \<Rightarrow> (AppState, 'p, 'w) sys \<Rightarrow> (AppState, 'p, 'w) sys" where
  "generateTravelPhoto env \<sigma> =
     (case (selectedFile (st \<sigma>), user (st \<sigma>)) of
        (Some f, Some u) \<Rightarrow>
          if selectedDestination (st \<sigma>) = [] then \<sigma>
          else
            (let \<sigma>1 = setIsGenerating True \<sigma>;
                 \<sigma>2 = setGenerationProgress 0 \<sigma>1;
                 (r, \<sigma>3) = generateTravelPhoto_try env u f (st \<sigma>) \<sigma>2;
                 \<sigma>4 = (case r of Inl e \<Rightarrow> generateTravelPhoto_catch e \<sigma>3 | Inr _ \<Rightarrow> \<sigma>3);
                 \<sigma>5 = setIsGenerating False \<sigma>4
             in setGenerationProgress 0 \<sigma>5)
      | _ \<Rightarrow> \<sigma>)"

definition generateWithLoRAModel_try ::
  "'w Env \<Rightarrow> AppState \<Rightarrow> (AppState, 'p, 'w) sys \<Rightarrow> (error + unit) \<times> (AppState, 'p, 'w) sys" where
  "generateWithLoRAModel_try env s0 \<sigma>0 =
     (case find (\<lambda>d. d_id d = selectedDestination s0) TRAVEL_DESTINATIONS of
        None \<Rightarrow> (Inl (Error ''Invalid destination''), \<sigma>0)
      | Some dest \<Rightarrow>
         (let \<sigma>1 = setGenerationProgress 25 \<sigma>0;
              prompt = loraGenerationPrompt dest;
              \<sigma>2 = setGenerationProgress 50 \<sigma>1;
              (r, \<sigma>3) = blink_ai_generateImage env
                 \<lparr>gp_prompt = prompt, gp_quality = ''high'', gp_size = ''1024x1024'', gp_n = 3\<rparr> \<sigma>2
          in case r of
               Inl e \<Rightarrow> (Inl e, \<sigma>3)
             | Inr data \<Rightarrow>
                (let \<sigma>4 = setGenerationProgress 75 \<sigma>3
                 in case data of
                      None \<Rightarrow> (Inl (Error ''Failed to generate image''), \<sigma>4)
                    | Some imgs \<Rightarrow>
                       if length imgs > 0 then
                         (let now = date_now env (world \<sigma>4);
                              newImages = map (\<lambda>(index, img).
                                 \<lparr>gi_id = ''lora_gen_'' @ string_of_nat now @ ''_'' @ string_of_nat index,
                                  gi_url = ir_url img,
                                  destination = d_name dest,
                                  originalImage = [],
                                  originalImages = None,
                                  createdAt = toISOString env now\<rparr>) (enumerate 0 imgs);
                              \<sigma>5 = setGeneratedImages_upd (\<lambda>prev. newImages @ prev) \<sigma>4;
                              \<sigma>6 = setGenerationProgress 100 \<sigma>5
                          in (Inr (), toast_success
                               (string_of_nat (length imgs)
                                @ '' travel photos generated using your LoRA model for ''
                                @ d_name dest @ ''!'') \<sigma>6))
                       else (Inl (Error ''Failed to generate image''), \<sigma>4))))"

definition generateWithLoRAModel_catch :: "error \<Rightarrow> (AppState, 'p, 'w) sys \<Rightarrow> (AppState, 'p, 'w) sys" where
  "generateWithLoRAModel_catch e \<sigma> =
     toast_error ''Failed to generate travel photos with LoRA model. Please try again.''
       (console_error ''LoRA generation error:'' e \<sigma>)"

definition generateWithLoRAModel :: "'w Env \<Rightarrow> (AppState, 'p, 'w) sys \<Rightarrow> (AppState, 'p, 'w) sys" where
  "generateWithLoRAModel env \<sigma> =
     (if selectedDestination (st \<sigma>) = [] \<or> user (st \<sigma>) = None
         \<or> map_option status (currentModel (st \<sigma>)) \<noteq> Some Ready
      then \<sigma>
      else
        (let \<sigma>1 = setIsGenerating True \<sigma>;
             \<sigma>2 = setGenerationProgress 0 \<sigma>1;
             (r, \<sigma>3) = generateWithLoRAModel_try env (st \<sigma>) \<sigma>2;
             \<sigma>4 = (case r of Inl e \<Rightarrow> generateWithLoRAModel_catch e \<sigma>3 | Inr _ \<Rightarrow> \<sigma>3);
             \<sigma>5 = setIsGenerating False \<sigma>4
         in setGenerationProgress 0 \<sigma>5))"

text \<open>
  \<^verbatim>\<open>handleInstantIDImageGenerated\<close>, the callback that App passes to the modules as
  \<^verbatim>\<open>onImageGenerated\<close>: it runs on the state of App, the parent of the module.
\<close>

definition handleInstantIDImageGenerated :: "GeneratedImage \<Rightarrow> AppState \<Rightarrow> AppState" where
  "handleInstantIDImageGenerated img s = s\<lparr>generatedImages := img # generatedImages s\<rparr>"

section \<open>The modules\<close>

text \<open>
  The three modules take the same props. \<^verbatim>\<open>user\<close> has the type \<^verbatim>\<open>User\<close>, an object,
  so the test \<^verbatim>\<open>!user\<close> of their guards is never true and is left out.
\<close>

record 'p ModuleProps =
  p_user :: User
  p_selectedDestination :: string
  p_TRAVEL_DESTINATIONS :: "Destination list"
  onImageGenerated :: "GeneratedImage \<Rightarrow> 'p \<Rightarrow> 'p"

text \<open>The props with which App renders a module, for the signed-in user \<open>u\<close>.\<close>

definition module_props :: "User \<Rightarrow> AppState \<Rightarrow> AppState ModuleProps" where
  "module_props u s =
     \<lparr>p_user = u, p_selectedDestination = selectedDestination s,
      p_TRAVEL_DESTINATIONS = TRAVEL_DESTINATIONS,
      onImageGenerated = handleInstantIDImageGenerated\<rparr>"

definition call_onImageGenerated ::
  "'p ModuleProps \<Rightarrow> GeneratedImage \<Rightarrow> ('s, 'p, 'w) sys \<Rightarrow> ('s, 'p, 'w) sys" where
  "call_onImageGenerated props img \<sigma> =
     emit (OnImageGenerated img) (\<sigma>\<lparr>parent := onImageGenerated props img (parent \<sigma>)\<rparr>)"

subsection \<open>InstantIDModule\<close>

record InstantIDState =
  ii_referenceImages :: "InstantIDImage list"
  ii_isGenerating :: bool
  ii_generationProgress :: rat
  ii_dragActive :: bool

definition ii_setReferenceImages ::
  "InstantIDImage list \<Rightarrow> (InstantIDState, 'p, 'w) sys \<Rightarrow> (InstantIDState, 'p, 'w) sys" where
  "ii_setReferenceImages v \<sigma> =
     emit (SetReferenceImages v) (\<sigma>\<lparr>st := (st \<sigma>)\<lparr>ii_referenceImages := v\<rparr>\<rparr>)"

definition ii_setIsGenerating :: "bool \<Rightarrow> (InstantIDState, 'p, 'w) sys \<Rightarrow> (InstantIDState, 'p, 'w) sys" where
  "ii_setIsGenerating v \<sigma> = emit (SetIsGenerating v) (\<sigma>\<lparr>st := (st \<sigma>)\<lparr>ii_isGenerating := v\<rparr>\<rparr>)"

definition ii_setGenerationProgress :: "rat \<Rightarrow> (InstantIDState, 'p, 'w) sys \<Rightarrow> (InstantIDState, 'p, 'w) sys" where
  "ii_setGenerationProgress v \<sigma> =
     emit (SetGenerationProgress v) (\<sigma>\<lparr>st := (st \<sigma>)\<lparr>ii_generationProgress := v\<rparr>\<rparr>)"

definition removeReferenceImage ::
  "string \<Rightarrow> (InstantIDState, 'p, 'w) sys \<Rightarrow> (InstantIDState, 'p, 'w) sys" where
  "removeReferenceImage i \<sigma> =
     (let prev = ii_referenceImages (st \<sigma>);
          imageToRemove = find (\<lambda>img. img_id img = i) prev;
          \<sigma>1 = (case imageToRemove of
                  Some img \<Rightarrow> revokeObjectURL (img_url img) \<sigma>
                | None \<Rightarrow> \<sigma>)
      in ii_setReferenceImages (filter (\<lambda>img. img_id img \<noteq> i) prev) \<sigma>1)"

definition clearReferenceImages :: "(InstantIDState, 'p, 'w) sys \<Rightarrow> (InstantIDState, 'p, 'w) sys" where
  "clearReferenceImages \<sigma> =
     ii_setReferenceImages []
       (fold (\<lambda>img. revokeObjectURL (img_url img)) (ii_referenceImages (st \<sigma>)) \<sigma>)"

definition instantIDPrompt :: "Destination \<Rightarrow> string" where
  "instantIDPrompt d =
     ''[InstantID Technology] Create a photorealistic travel photo using InstantID face preservation technology. Place the person from the reference images in ''
     @ description d
     @ '' in ''
     @ d_name d
     @ ''. ''
     @ [CHR 0x0A, CHR 0x0A]
     @ ''CRITICAL REQUIREMENTS:''
     @ [CHR 0x0A]
     @ ''- Use InstantID to maintain EXACT facial identity from reference images''
     @ [CHR 0x0A]
     @ ''- Preserve facial structure, features, skin tone, and unique characteristics''
     @ [CHR 0x0A]
     @ ''- Generate natural travel photography with authentic poses and expressions''
     @ [CHR 0x0A]
     @ ''- Ensure seamless integration with the destination environment''
     @ [CHR 0x0A]
     @ ''- Apply proper lighting and shadows that match the location''
     @ [CHR 0x0A]
     @ ''- Create high-quality, professional travel photography composition''
     @ [CHR 0x0A, CHR 0x0A]
     @ ''The person should appear naturally enjoying the destination with realistic travel poses. Maintain photographic realism with professional travel photography aesthetics.''"

function upload_reference_images ::
  "'w Env \<Rightarrow> User \<Rightarrow> InstantIDImage list \<Rightarrow> nat \<Rightarrow> string list \<Rightarrow> (InstantIDState, 'p, 'w) sys
     \<Rightarrow> (error + string list) \<times> (InstantIDState, 'p, 'w) sys" where
  "upload_reference_images env u imgs i uploadedUrls \<sigma> =
     (if i < length imgs then
        let image = imgs ! i;
            \<sigma>1 = ii_setGenerationProgress ((of_nat i / of_nat (length imgs)) * 30) \<sigma>;
            path = ''instant-id/'' @ user_id u @ ''/'' @ string_of_nat (date_now env (world \<sigma>1))
                   @ ''-'' @ string_of_nat i @ ''-'' @ file_name (img_file image);
            (r, \<sigma>2) = blink_storage_upload env (img_file image) path True \<sigma>1
        in (case r of
              Inl e \<Rightarrow> (Inl e, \<sigma>2)
            | Inr publicUrl \<Rightarrow>
                upload_reference_images env u imgs (i + 1) (uploadedUrls @ [publicUrl]) \<sigma>2)
      else (Inr uploadedUrls, \<sigma>))"
  by pat_completeness auto
termination
  by (relation "measure (\<lambda>(env, u, imgs, i, uploadedUrls, \<sigma>). length imgs - i)") auto

declare upload_reference_images.simps [simp del]

definition generateWithInstantID_try ::
  "'w Env \<Rightarrow> 'p ModuleProps \<Rightarrow> InstantIDImage list \<Rightarrow> (InstantIDState, 'p, 'w) sys
     \<Rightarrow> (error + unit) \<times> (InstantIDState, 'p, 'w) sys" where
  "generateWithInstantID_try env props imgs \<sigma>0 =
     (let \<sigma>1 = toast_success ''Uploading reference images...'' \<sigma>0;
          (r, \<sigma>2) = upload_reference_images env (p_user props) imgs 0 [] \<sigma>1
      in case r of
           Inl e \<Rightarrow> (Inl e, \<sigma>2)
         | Inr uploadedUrls \<Rightarrow>
            (let \<sigma>3 = ii_setGenerationProgress 40 \<sigma>2
             in case find (\<lambda>d. d_id d = p_selectedDestination props) (p_TRAVEL_DESTINATIONS props) of
                  None \<Rightarrow> (Inl (Error ''Invalid destination''), \<sigma>3)
                | Some dest \<Rightarrow>
                   (let \<sigma>4 = ii_setGenerationProgress 50 \<sigma>3;
                        \<sigma>5 = toast_success ''Processing with InstantID...'' \<sigma>4;
                        \<sigma>6 = ii_setGenerationProgress 70 \<sigma>5;
                        (r2, \<sigma>7) = blink_ai_modifyImage env
                           \<lparr>mp_images = uploadedUrls, mp_prompt = instantIDPrompt dest,
                            mp_quality = ''high'', mp_size = ''1024x1024'', mp_n = 3\<rparr> \<sigma>6
                    in case r2 of
                         Inl e \<Rightarrow> (Inl e, \<sigma>7)
                       | Inr data \<Rightarrow>
                          (let \<sigma>8 = ii_setGenerationProgress 90 \<sigma>7
                           in case data of
                                None \<Rightarrow> (Inl (Error ''Failed to generate images''), \<sigma>8)
                              | Some res \<Rightarrow>
                                 if length res > 0 then
                                   (let now = date_now env (world \<sigma>8);
                                        newImages = map (\<lambda>(index, img).
                                           \<lparr>gi_id = ''instant_gen_'' @ string_of_nat now @ ''_'' @ string_of_nat index,
                                            gi_url = ir_url img,
                                            destination = d_name dest,
                                            originalImage = [],
                                            originalImages = Some uploadedUrls,
                                            createdAt = toISOString env now\<rparr>) (enumerate 0 res);
                                        \<sigma>9 = fold (call_onImageGenerated props) newImages \<sigma>8;
                                        \<sigma>10 = ii_setGenerationProgress 100 \<sigma>9
                                    in (Inr (), toast_success
                                         ([CHR 0xF0, CHR 0x9F, CHR 0x8E, CHR 0x89] @ '' ''
                                          @ string_of_nat (length res)
                                          @ '' InstantID travel photos generated for ''
                                          @ d_name dest @ ''!'') \<sigma>10))
                                 else (Inl (Error ''Failed to generate images''), \<sigma>8)))))"

definition generateWithInstantID_catch ::
  "error \<Rightarrow> (InstantIDState, 'p, 'w) sys \<Rightarrow> (InstantIDState, 'p, 'w) sys" where
  "generateWithInstantID_catch e \<sigma> =
     toast_error ''Failed to generate InstantID photos. Please try again.''
       (console_error ''InstantID generation error:'' e \<sigma>)"

definition generateWithInstantID ::
  "'w Env \<Rightarrow> 'p ModuleProps \<Rightarrow> (InstantIDState, 'p, 'w) sys \<Rightarrow> (InstantIDState, 'p, 'w) sys" where
  "generateWithInstantID env props \<sigma> =
     (if length (ii_referenceImages (st \<sigma>)) = 0 \<or> p_selectedDestination props = [] then \<sigma>
      else
        (let \<sigma>1 = ii_setIsGenerating True \<sigma>;
             \<sigma>2 = ii_setGenerationProgress 0 \<sigma>1;
             (r, \<sigma>3) = generateWithInstantID_try env props (ii_referenceImages (st \<sigma>)) \<sigma>2;
             \<sigma>4 = (case r of Inl e \<Rightarrow> generateWithInstantID_catch e \<sigma>3 | Inr _ \<Rightarrow> \<sigma>3);
             \<sigma>5 = ii_setIsGenerating False \<sigma>4
         in ii_setGenerationProgress 0 \<sigma>5))"

subsection \<open>PhotoMakerModule\<close>

record PhotoMakerState =
  pm_referenceImages :: "PhotoMakerImage list"
  pm_isGenerating :: bool
  pm_generationProgress :: rat
  pm_dragActive :: bool
  customPrompt :: string
  pm_generateMultiple :: bool

definition pm_setIsGenerating :: "bool \<Rightarrow> (PhotoMakerState, 'p, 'w) sys \<Rightarrow> (PhotoMakerState, 'p, 'w) sys" where
  "pm_setIsGenerating v \<sigma> = emit (SetIsGenerating v) (\<sigma>\<lparr>st := (st \<sigma>)\<lparr>pm_isGenerating := v\<rparr>\<rparr>)"

definition pm_setGenerationProgress :: "rat \<Rightarrow> (PhotoMakerState, 'p, 'w) sys \<Rightarrow> (PhotoMakerState, 'p, 'w) sys" where
  "pm_setGenerationProgress v \<sigma> =
     emit (SetGenerationProgress v) (\<sigma>\<lparr>st := (st \<sigma>)\<lparr>pm_generationProgress := v\<rparr>\<rparr>)"

text \<open>
  \<^verbatim>\<open>String.prototype.trim\<close> on the white space of ASCII (the white space beyond ASCII
  that JavaScript also strips is not modelled).
\<close>

definition is_space :: "char \<Rightarrow> bool" where
  "is_space c = (c \<in> set [CHR 0x20, CHR 0x09, CHR 0x0A, CHR 0x0B, CHR 0x0C, CHR 0x0D])"

definition trim :: "string \<Rightarrow> string" where
  "trim s = rev (dropWhile is_space (rev (dropWhile is_space s)))"

definition photoMakerPrompt :: "Destination \<Rightarrow> string" where
  "photoMakerPrompt d =
     ''[PhotoMaker Technology] Create a photorealistic travel photo using PhotoMaker's advanced identity preservation. Place the person from the reference images in ''
     @ description d
     @ '' in ''
     @ d_name d
     @ ''.''
     @ [CHR 0x0A, CHR 0x0A]
     @ ''PHOTOMAKER REQUIREMENTS:''
     @ [CHR 0x0A]
     @ ''- Use PhotoMaker's stochastic identity mixing for consistent facial features''
     @ [CHR 0x0A]
     @ ''- Preserve unique facial characteristics, expressions, and identity markers''
     @ [CHR 0x0A]
     @ ''- Generate natural travel photography with authentic poses and lighting''
     @ [CHR 0x0A]
     @ ''- Ensure seamless integration with the destination environment''
     @ [CHR 0x0A]
     @ ''- Apply realistic shadows, reflections, and environmental lighting''
     @ [CHR 0x0A]
     @ ''- Create professional travel photography composition with depth and atmosphere''
     @ [CHR 0x0A, CHR 0x0A]
     @ ''The person should appear naturally enjoying the destination with realistic travel poses and expressions. Maintain photographic realism with professional travel photography aesthetics.''"

function upload_photomaker_images ::
  "'w Env \<Rightarrow> User \<Rightarrow> PhotoMakerImage list \<Rightarrow> nat \<Rightarrow> string list \<Rightarrow> (PhotoMakerState, 'p, 'w) sys
     \<Rightarrow> (error + string list) \<times> (PhotoMakerState, 'p, 'w) sys" where
  "upload_photomaker_images env u imgs i uploadedUrls \<sigma> =
     (if i < length imgs then
        let image = imgs ! i;
            \<sigma>1 = pm_setGenerationProgress ((of_nat i / of_nat (length imgs)) * 25) \<sigma>;
            path = ''photomaker/'' @ user_id u @ ''/'' @ string_of_nat (date_now env (world \<sigma>1))
                   @ ''-'' @ string_of_nat i @ ''-'' @ file_name (img_file image);
            (r, \<sigma>2) = blink_storage_upload env (img_file image) path True \<sigma>1
        in (case r of
              Inl e \<Rightarrow> (Inl e, \<sigma>2)
            | Inr publicUrl \<Rightarrow>
                upload_photomaker_images env u imgs (i + 1) (uploadedUrls @ [publicUrl]) \<sigma>2)
      else (Inr uploadedUrls, \<sigma>))"
  by pat_completeness auto
termination
  by (relation "measure (\<lambda>(env, u, imgs, i, uploadedUrls, \<sigma>). length imgs - i)") auto

declare upload_photomaker_images.simps [simp del]

text \<open>The prompt sent: the template, and the custom prompt when it is not blank.\<close>

definition photoMaker_final_prompt :: "Destination \<Rightarrow> string \<Rightarrow> string" where
  "photoMaker_final_prompt dest custom =
     (if trim custom \<noteq> []
      then photoMakerPrompt dest @ [CHR 0x0A, CHR 0x0A] @ ''Additional Style Requirements: '' @ trim custom
      else photoMakerPrompt dest)"

definition generateWithPhotoMaker_try ::
  "'w Env \<Rightarrow> 'p ModuleProps \<Rightarrow> PhotoMakerState \<Rightarrow> (PhotoMakerState, 'p, 'w) sys
     \<Rightarrow> (error + unit) \<times> (PhotoMakerState, 'p, 'w) sys" where
  "generateWithPhotoMaker_try env props s0 \<sigma>0 =
     (let \<sigma>1 = toast_success ''Uploading reference images...'' \<sigma>0;
          (r, \<sigma>2) = upload_photomaker_images env (p_user props) (pm_referenceImages s0) 0 [] \<sigma>1
      in case r of
           Inl e \<Rightarrow> (Inl e, \<sigma>2)
         | Inr uploadedUrls \<Rightarrow>
            (let \<sigma>3 = pm_setGenerationProgress 35 \<sigma>2
             in case find (\<lambda>d. d_id d = p_selectedDestination props) (p_TRAVEL_DESTINATIONS props) of
                  None \<Rightarrow> (Inl (Error ''Invalid destination''), \<sigma>3)
                | Some dest \<Rightarrow>
                   (let \<sigma>4 = pm_setGenerationProgress 45 \<sigma>3;
                        \<sigma>5 = toast_success ''Processing with PhotoMaker...'' \<sigma>4;
                        \<sigma>6 = pm_setGenerationProgress 60 \<sigma>5;
                        (r2, \<sigma>7) = blink_ai_modifyImage env
                           \<lparr>mp_images = uploadedUrls,
                            mp_prompt = photoMaker_final_prompt dest (customPrompt s0),
                            mp_quality = ''high'', mp_size = ''1024x1024'',
                            mp_n = (if pm_generateMultiple s0 then 4 else 2)\<rparr> \<sigma>6
                    in case r2 of
                         Inl e \<Rightarrow> (Inl e, \<sigma>7)
                       | Inr data \<Rightarrow>
                          (let \<sigma>8 = pm_setGenerationProgress 85 \<sigma>7
                           in case data of
                                None \<Rightarrow> (Inl (Error ''Failed to generate images''), \<sigma>8)
                              | Some res \<Rightarrow>
                                 if length res > 0 then
                                   (let now = date_now env (world \<sigma>8);
                                        newImages = map (\<lambda>(index, img).
                                           \<lparr>gi_id = ''photomaker_gen_'' @ string_of_nat now @ ''_'' @ string_of_nat index,
                                            gi_url = ir_url img,
                                            destination = d_name dest,
                                            originalImage = [],
                                            originalImages = Some uploadedUrls,
                                            createdAt = toISOString env now\<rparr>) (enumerate 0 res);
                                        \<sigma>9 = fold (call_onImageGenerated props) newImages \<sigma>8;
                                        \<sigma>10 = pm_setGenerationProgress 100 \<sigma>9
                                    in (Inr (), toast_success
                                         ([CHR 0xC3, CHR 0xB0, CHR 0xC5, CHR 0xB8, CHR 0xC5, CHR 0xBD,
                                           CHR 0xE2, CHR 0x80, CHR 0xB0] @ '' ''
                                          @ string_of_nat (length res)
                                          @ '' PhotoMaker travel photos generated for ''
                                          @ d_name dest @ ''!'') \<sigma>10))
                                 else (Inl (Error ''Failed to generate images''), \<sigma>8)))))"

definition generateWithPhotoMaker_catch ::
  "error \<Rightarrow> (PhotoMakerState, 'p, 'w) sys \<Rightarrow> (PhotoMakerState, 'p, 'w) sys" where
  "generateWithPhotoMaker_catch e \<sigma> =
     toast_error ''Failed to generate PhotoMaker photos. Please try again.''
       (console_error ''PhotoMaker generation error:'' e \<sigma>)"

definition generateWithPhotoMaker ::
  "'w Env \<Rightarrow> 'p ModuleProps \<Rightarrow> (PhotoMakerState, 'p, 'w) sys \<Rightarrow> (PhotoMakerState, 'p, 'w) sys" where
  "generateWithPhotoMaker env props \<sigma> =
     (if length (pm_referenceImages (st \<sigma>)) = 0 \<or> p_selectedDestination props = [] then \<sigma>
      else
        (let \<sigma>1 = pm_setIsGenerating True \<sigma>;
             \<sigma>2 = pm_setGenerationProgress 0 \<sigma>1;
             (r, \<sigma>3) = generateWithPhotoMaker_try env props (st \<sigma>) \<sigma>2;
             \<sigma>4 = (case r of Inl e \<Rightarrow> generateWithPhotoMaker_catch e \<sigma>3 | Inr _ \<Rightarrow> \<sigma>3);
             \<sigma>5 = pm_setIsGenerating False \<sigma>4
         in pm_setGenerationProgress 0 \<sigma>5))"

subsection \<open>FaceSwapModule\<close>

record FaceSwapState =
  facePortrait :: "FacePortrait option"
  fs_isGenerating :: bool
  fs_generationProgress :: rat
  fs_dragActive :: bool

definition fs_setIsGenerating :: "bool \<Rightarrow> (FaceSwapState, 'p, 'w) sys \<Rightarrow> (FaceSwapState, 'p, 'w) sys" where
  "fs_setIsGenerating v \<sigma> = emit (SetIsGenerating v) (\<sigma>\<lparr>st := (st \<sigma>)\<lparr>fs_isGenerating := v\<rparr>\<rparr>)"

definition fs_setGenerationProgress :: "rat \<Rightarrow> (FaceSwapState, 'p, 'w) sys \<Rightarrow> (FaceSwapState, 'p, 'w) sys" where
  "fs_setGenerationProgress v \<sigma> =
     emit (SetGenerationProgress v) (\<sigma>\<lparr>st := (st \<sigma>)\<lparr>fs_generationProgress := v\<rparr>\<rparr>)"

definition scenePrompt :: "Destination \<Rightarrow> string" where
  "scenePrompt d =
     ''Create a photorealistic travel scene in ''
     @ description d
     @ '' in ''
     @ d_name d
     @ ''. Generate a beautiful, high-quality travel photography composition showing the iconic location with proper lighting, shadows, and atmospheric details. The scene should be ready for a person to be naturally integrated into it. Professional travel photography style with excellent composition and lighting.''"

definition faceSwapPrompt :: "Destination \<Rightarrow> string" where
  "faceSwapPrompt d =
     ''[Advanced Face Swap] Seamlessly integrate the face from the portrait image into this travel scene in ''
     @ d_name d
     @ ''. ''
     @ [CHR 0x0A, CHR 0x0A]
     @ ''CRITICAL REQUIREMENTS:''
     @ [CHR 0x0A]
     @ ''- Preserve the EXACT facial features, skin tone, and characteristics from the portrait''
     @ [CHR 0x0A]
     @ ''- Maintain natural facial proportions and expressions''
     @ [CHR 0x0A]
     @ ''- Blend the face naturally with appropriate lighting that matches the scene''
     @ [CHR 0x0A]
     @ ''- Ensure realistic shadows and highlights on the face''
     @ [CHR 0x0A]
     @ ''- Create a natural, believable integration that looks like the person is actually there''
     @ [CHR 0x0A]
     @ ''- Maintain high photographic quality and realism''
     @ [CHR 0x0A]
     @ ''- The person should appear naturally enjoying the travel destination''
     @ [CHR 0x0A, CHR 0x0A]
     @ ''The result should look like a genuine travel photo of the person at this location, with perfect face preservation and natural integration.''"

definition generateWithFaceSwap_try ::
  "'w Env \<Rightarrow> 'p ModuleProps \<Rightarrow> FacePortrait \<Rightarrow> (FaceSwapState, 'p, 'w) sys
     \<Rightarrow> (error + unit) \<times> (FaceSwapState, 'p, 'w) sys" where
  "generateWithFaceSwap_try env props portrait \<sigma>0 =
     (let \<sigma>1 = toast_success ''Uploading face portrait...'' \<sigma>0;
          path = ''face-portraits/'' @ user_id (p_user props) @ ''/''
                 @ string_of_nat (date_now env (world \<sigma>1)) @ ''-'' @ file_name (img_file portrait);
          (r, \<sigma>2) = blink_storage_upload env (img_file portrait) path True \<sigma>1
      in case r of
           Inl e \<Rightarrow> (Inl e, \<sigma>2)
         | Inr portraitUrl \<Rightarrow>
            (let \<sigma>3 = fs_setGenerationProgress 25 \<sigma>2
             in case find (\<lambda>d. d_id d = p_selectedDestination props) (p_TRAVEL_DESTINATIONS props) of
                  None \<Rightarrow> (Inl (Error ''Invalid destination''), \<sigma>3)
                | Some dest \<Rightarrow>
                   (let \<sigma>4 = fs_setGenerationProgress 40 \<sigma>3;
                        \<sigma>5 = toast_success ''Generating travel scene...'' \<sigma>4;
                        (r2, \<sigma>6) = blink_ai_generateImage env
                           \<lparr>gp_prompt = scenePrompt dest, gp_quality = ''high'',
                            gp_size = ''1024x1024'', gp_n = 1\<rparr> \<sigma>5
                    in case r2 of
                         Inl e \<Rightarrow> (Inl e, \<sigma>6)
                       | Inr None \<Rightarrow> (Inl (Error ''Failed to generate travel scene''), \<sigma>6)
                       | Inr (Some []) \<Rightarrow> (Inl (Error ''Failed to generate travel scene''), \<sigma>6)
                       | Inr (Some (scene # _)) \<Rightarrow>
                          (let \<sigma>7 = fs_setGenerationProgress 65 \<sigma>6;
                               \<sigma>8 = toast_success ''Performing face swap integration...'' \<sigma>7;
                               (r3, \<sigma>9) = blink_ai_modifyImage env
                                  \<lparr>mp_images = [ir_url scene, portraitUrl],
                                   mp_prompt = faceSwapPrompt dest, mp_quality = ''high'',
                                   mp_size = ''1024x1024'', mp_n = 3\<rparr> \<sigma>8
                           in case r3 of
                                Inl e \<Rightarrow> (Inl e, \<sigma>9)
                              | Inr finalData \<Rightarrow>
                                 (let \<sigma>10 = fs_setGenerationProgress 90 \<sigma>9
                                  in case finalData of
                                       None \<Rightarrow> (Inl (Error ''Failed to generate face-swapped images''), \<sigma>10)
                                     | Some res \<Rightarrow>
                                        if length res > 0 then
                                          (let now = date_now env (world \<sigma>10);
                                               newImages = map (\<lambda>(index, img).
                                                  \<lparr>gi_id = ''faceswap_gen_'' @ string_of_nat now @ ''_'' @ string_of_nat index,
                                                   gi_url = ir_url img,
                                                   destination = d_name dest,
                                                   originalImage = portraitUrl,
                                                   originalImages = None,
                                                   createdAt = toISOString env now\<rparr>) (enumerate 0 res);
                                               \<sigma>11 = fold (call_onImageGenerated props) newImages \<sigma>10;
                                               \<sigma>12 = fs_setGenerationProgress 100 \<sigma>11
                                           in (Inr (), toast_success
                                                ([CHR 0xC3, CHR 0xB0, CHR 0xC5, CHR 0xB8, CHR 0xC5, CHR 0xBD,
                                                  CHR 0xE2, CHR 0x80, CHR 0xB0] @ '' ''
                                                 @ string_of_nat (length res)
                                                 @ '' face-swapped travel photos generated for ''
                                                 @ d_name dest @ ''!'') \<sigma>12))
                                        else (Inl (Error ''Failed to generate face-swapped images''), \<sigma>10))))))"

definition generateWithFaceSwap_catch ::
  "error \<Rightarrow> (FaceSwapState, 'p, 'w) sys \<Rightarrow> (FaceSwapState, 'p, 'w) sys" where
  "generateWithFaceSwap_catch e \<sigma> =
     toast_error ''Failed to generate face-swapped photos. Please try again.''
       (console_error ''Face swap generation error:'' e \<sigma>)"

definition generateWithFaceSwap ::
  "'w Env \<Rightarrow> 'p ModuleProps \<Rightarrow> (FaceSwapState, 'p, 'w) sys \<Rightarrow> (FaceSwapState, 'p, 'w) sys" where
  "generateWithFaceSwap env props \<sigma> =
     (case facePortrait (st \<sigma>) of
        None \<Rightarrow> \<sigma>
      | Some portrait \<Rightarrow>
         if p_selectedDestination props = [] then \<sigma>
         else
           (let \<sigma>1 = fs_setIsGenerating True \<sigma>;
                \<sigma>2 = fs_setGenerationProgress 0 \<sigma>1;
                (r, \<sigma>3) = generateWithFaceSwap_try env props portrait \<sigma>2;
                \<sigma>4 = (case r of Inl e \<Rightarrow> generateWithFaceSwap_catch e \<sigma>3 | Inr _ \<Rightarrow> \<sigma>3);
                \<sigma>5 = fs_setIsGenerating False \<sigma>4
            in fs_setGenerationProgress 0 \<sigma>5))"

section \<open>Reading the log of a run\<close>

text \<open>A run starts from a component state, a parent state and a world, with an empty log.\<close>

definition start :: "'s \<Rightarrow> 'p \<Rightarrow> 'w \<Rightarrow> ('s, 'p, 'w) sys" where
  "start s p w = \<lparr>st = s, parent = p, world = w, log = []\<rparr>"

text \<open>A view of the log keeps, in order, what a function extracts from each event.\<close>

definition view :: "(event \<Rightarrow> 'a list) \<Rightarrow> event list \<Rightarrow> 'a list" where
  "view f tr = concat (map f tr)"

text \<open>The calls to the platform, without path and answer.\<close>

datatype service_call =
    Upload File
  | GenerateImage GenerateImageParams
  | ModifyImage ModifyImageParams

fun service_call_of :: "event \<Rightarrow> service_call list" where
  "service_call_of (StorageUpload f p u r) = [Upload f]"
| "service_call_of (AiGenerateImage ps r) = [GenerateImage ps]"
| "service_call_of (AiModifyImage ps r) = [ModifyImage ps]"
| "service_call_of _ = []"

text \<open>The calls to the image endpoints.\<close>

fun ai_call_of :: "event \<Rightarrow> service_call list" where
  "ai_call_of (AiGenerateImage ps r) = [GenerateImage ps]"
| "ai_call_of (AiModifyImage ps r) = [ModifyImage ps]"
| "ai_call_of _ = []"

text \<open>The files uploaded, each with the answer of the storage service.\<close>

fun upload :: "event \<Rightarrow> (File \<times> (error + string)) list" where
  "upload (StorageUpload f p u r) = [(f, r)]"
| "upload _ = []"

text \<open>The answers of the image endpoints.\<close>

fun ai_answer :: "event \<Rightarrow> ai_response list" where
  "ai_answer (AiGenerateImage ps r) = [r]"
| "ai_answer (AiModifyImage ps r) = [r]"
| "ai_answer _ = []"

text \<open>
  The steps that fail: a call that the platform rejects, an image call that returns no
  data, and the error that reaches the \<^verbatim>\<open>catch\<close> block (logged by \<^verbatim>\<open>console.error\<close>).
\<close>

fun no_data :: "ai_response \<Rightarrow> bool" where
  "no_data (Inr None) = True"
| "no_data (Inr (Some [])) = True"
| "no_data _ = False"

fun rejected :: "event \<Rightarrow> error list" where
  "rejected (StorageUpload f p u (Inl e)) = [e]"
| "rejected (AiGenerateImage ps (Inl e)) = [e]"
| "rejected (AiModifyImage ps (Inl e)) = [e]"
| "rejected _ = []"

fun caught :: "event \<Rightarrow> error list" where
  "caught (ConsoleError l e) = [e]"
| "caught _ = []"




fun revoked :: "event \<Rightarrow> string list" where
  "revoked (RevokeObjectURL u) = [u]"
| "revoked _ = []"

fun delivered :: "event \<Rightarrow> GeneratedImage list" where
  "delivered (OnImageGenerated img) = [img]"
| "delivered _ = []"

fun toast_err :: "event \<Rightarrow> string list" where
  "toast_err (ToastError m) = [m]"
| "toast_err _ = []"

text \<open>The uploads that the storage service rejects.\<close>

fun upload_rejected :: "event \<Rightarrow> error list" where
  "upload_rejected (StorageUpload f p u (Inl e)) = [e]"
| "upload_rejected _ = []"

text \<open>The prompt of a call to an image endpoint.\<close>

fun prompt_of :: "service_call \<Rightarrow> string" where
  "prompt_of (Upload f) = []"
| "prompt_of (GenerateImage ps) = gp_prompt ps"
| "prompt_of (ModifyImage ps) = mp_prompt ps"

section \<open>What the specification says, as definitions\<close>



text \<open>
  The second stage of the face swap as the specification gives it: after a scene
  generation that returns a non-empty result, one \<^verbatim>\<open>modifyImage\<close> call on the scene URL
  and the portrait URL, in that order; after any other answer, no call.
\<close>

definition spec_second_stage :: "Destination \<Rightarrow> string \<Rightarrow> ai_response \<Rightarrow> service_call list" where
  "spec_second_stage dest portraitUrl r =
     (case r of
        Inr (Some (scene # _)) \<Rightarrow>
          [ModifyImage \<lparr>mp_images = [ir_url scene, portraitUrl], mp_prompt = faceSwapPrompt dest,
                        mp_quality = ''high'', mp_size = ''1024x1024'', mp_n = 3\<rparr>]
      | _ \<Rightarrow> [])"

section \<open>Concrete inputs\<close>

text \<open>
  A world that is a clock. \<open>env_ok\<close> answers every call: an upload with a URL made of the
  file name, an image call with as many results as were asked for (four at most).
  \<open>env_reject\<close> rejects every upload, \<open>env_no_scene\<close> answers \<^verbatim>\<open>generateImage\<close> with
  an empty list.
\<close>

definition canned_results :: "ImageResult list" where
  "canned_results = [\<lparr>ir_url = ''r0''\<rparr>, \<lparr>ir_url = ''r1''\<rparr>, \<lparr>ir_url = ''r2''\<rparr>, \<lparr>ir_url = ''r3''\<rparr>]"

definition env_ok :: "nat Env" where
  "env_ok =
     \<lparr>storage_upload = (\<lambda>f path upsert w. (Inr (''cdn/'' @ file_name f), w + 1)),
      ai_generateImage = (\<lambda>ps w. (Inr (Some (take (gp_n ps) canned_results)), w + 1)),
      ai_modifyImage = (\<lambda>ps w. (Inr (Some (take (mp_n ps) canned_results)), w + 1)),
      date_now = (\<lambda>w. w),
      setTimeout = (\<lambda>ms w. w + ms),
      toISOString = (\<lambda>n. ''iso''),
      toLocaleDateString = (\<lambda>n. ''date'')\<rparr>"

definition env_reject :: "nat Env" where
  "env_reject = env_ok\<lparr>storage_upload := (\<lambda>f path upsert w. (Inl (Error ''network''), w + 1))\<rparr>"

definition env_no_scene :: "nat Env" where
  "env_no_scene = env_ok\<lparr>ai_generateImage := (\<lambda>ps w. (Inr (Some []), w + 1))\<rparr>"

definition user0 :: User where
  "user0 = \<lparr>user_id = ''u1'', email = ''a@b.c'', displayName = None\<rparr>"

definition image0 :: "string \<Rightarrow> TrainingImage" where
  "image0 k = \<lparr>img_id = ''img_'' @ k, img_file = \<lparr>file_name = k @ ''.png'', file_type = ''image/png''\<rparr>,
               img_url = ''blob:'' @ k, uploadedUrl = None\<rparr>"

definition images5 :: "TrainingImage list" where
  "images5 = [image0 ''a'', image0 ''b'', image0 ''c'', image0 ''d'', image0 ''e'']"

definition app0 :: AppState where
  "app0 =
     \<lparr>user = Some user0, loading = False,
      selectedFile = Some \<lparr>file_name = ''me.png'', file_type = ''image/png''\<rparr>,
      selectedDestination = ''paris'', isGenerating = False, generationProgress = 0,
      generatedImages = [], dragActive = False, generateMultiple = False,
      trainingImages = images5, currentModel = None, isTrainingModel = False,
      trainingProgress = 0, useCustomModel = False, activeTab = Single\<rparr>"

definition instant0 :: InstantIDState where
  "instant0 = \<lparr>ii_referenceImages = [image0 ''a'', image0 ''b''], ii_isGenerating = False,
               ii_generationProgress = 0, ii_dragActive = False\<rparr>"

definition photomaker0 :: PhotoMakerState where
  "photomaker0 = \<lparr>pm_referenceImages = [image0 ''a'', image0 ''b''], pm_isGenerating = False,
                  pm_generationProgress = 0, pm_dragActive = False, customPrompt = '' film '',
                  pm_generateMultiple = False\<rparr>"

definition faceswap0 :: FaceSwapState where
  "faceswap0 = \<lparr>facePortrait = Some (image0 ''a''), fs_isGenerating = False,
                fs_generationProgress = 0, fs_dragActive = False\<rparr>"

section \<open>The log of an upload loop\<close>

text \<open>
  What an upload loop adds to the log from index \<open>i\<close> on, given the path and the answer
  of each upload it makes: the progress event \<open>pe i\<close>, then the upload of file \<open>i\<close>.
\<close>

fun upload_loop_log ::
  "(nat \<Rightarrow> event) \<Rightarrow> File list \<Rightarrow> nat \<Rightarrow> (string \<times> (error + string)) list \<Rightarrow> event list" where
  "upload_loop_log pe files i [] = []"
| "upload_loop_log pe files i ((path, r) # rest) =
     pe i # StorageUpload (files ! i) path True r # upload_loop_log pe files (Suc i) rest"

section \<open>The model record of a training run\<close>



section \<open>Properties\<close>

subsection \<open>Views, uploads loops and the training run\<close>

lemma view_Nil [simp]: "view f [] = []"
  by (simp add: view_def)

lemma view_Cons [simp]: "view f (e # es) = f e @ view f es"
  by (simp add: view_def)

lemma view_append [simp]: "view f (xs @ ys) = view f xs @ view f ys"
  by (simp add: view_def)

lemmas prim_defs = emit_def toast_success_def toast_error_def console_error_def
  revokeObjectURL_def delay_def blink_storage_upload_def blink_ai_generateImage_def
  blink_ai_modifyImage_def

lemmas app_setter_defs = setTrainingImages_def setIsTrainingModel_def setTrainingProgress_def
  setCurrentModel_def setCurrentModel_upd_def setUseCustomModel_def setIsGenerating_def
  setGenerationProgress_def setGeneratedImages_upd_def

lemma find_filter_distinct:
  "distinct (map f xs) \<Longrightarrow>
     (case find (\<lambda>x. f x = i) xs of None \<Rightarrow> [] | Some x \<Rightarrow> [x]) = filter (\<lambda>x. f x = i) xs"
proof (induction xs)
  case Nil
  then show ?case by simp
next
  case (Cons a xs)
  show ?case
  proof (cases "f a = i")
    case True
    with Cons.prems have "i \<notin> f ` set xs" by auto
    then have "filter (\<lambda>x. f x = i) xs = []" by (auto simp: filter_empty_conv)
    with True show ?thesis by simp
  next
    case False
    with Cons show ?thesis by simp
  qed
qed

lemma filter_distinct_le1:
  "distinct (map f xs) \<Longrightarrow> length (filter (\<lambda>x. f x = i) xs) \<le> 1"
proof (induction xs)
  case Nil
  then show ?case by simp
next
  case (Cons a xs)
  show ?case
  proof (cases "f a = i")
    case True
    with Cons.prems have "i \<notin> f ` set xs" by auto
    then have "filter (\<lambda>x. f x = i) xs = []" by (auto simp: filter_empty_conv)
    with True show ?thesis by simp
  next
    case False
    with Cons show ?thesis by simp
  qed
qed

lemma fold_revoke_log:
  "log (fold (\<lambda>img. revokeObjectURL (img_url img)) xs \<sigma>)
     = log \<sigma> @ map (\<lambda>img. RevokeObjectURL (img_url img)) xs"
  by (induction xs arbitrary: \<sigma>) (simp_all add: prim_defs)

lemma fold_revoke_st:
  "st (fold (\<lambda>img. revokeObjectURL (img_url img)) xs \<sigma>) = st \<sigma>"
  by (induction xs arbitrary: \<sigma>) (simp_all add: prim_defs)

lemma view_revoked_map:
  "view revoked (map (\<lambda>img. RevokeObjectURL (img_url img)) xs) = map img_url xs"
  by (induction xs) simp_all

lemma removeTrainingImage_revoked:
  assumes "distinct (map img_id (trainingImages s))"
  shows "view revoked (log (removeTrainingImage i (start s p w)))
           = map img_url (filter (\<lambda>img. img_id img = i) (trainingImages s))"
proof -
  have "view revoked (log (removeTrainingImage i (start s p w)))
          = map img_url (case find (\<lambda>img. img_id img = i) (trainingImages s) of
                           None \<Rightarrow> [] | Some x \<Rightarrow> [x])"
    by (simp add: removeTrainingImage_def prim_defs start_def app_setter_defs Let_def split: option.splits)
  then show ?thesis using find_filter_distinct [OF assms] by simp
qed

lemma removeTrainingImage_st:
  "st (removeTrainingImage i (start s p w))
     = s\<lparr>trainingImages := filter (\<lambda>img. img_id img \<noteq> i) (trainingImages s)\<rparr>"
  by (simp add: removeTrainingImage_def prim_defs start_def app_setter_defs Let_def split: option.splits)

lemma clearTrainingImages_revoked:
  "view revoked (log (clearTrainingImages (start s p w))) = map img_url (trainingImages s)"
  by (simp add: clearTrainingImages_def app_setter_defs emit_def fold_revoke_log
      fold_revoke_st view_revoked_map start_def)

lemma clearTrainingImages_st:
  "st (clearTrainingImages (start s p w)) = s\<lparr>trainingImages := []\<rparr>"
  by (simp add: clearTrainingImages_def app_setter_defs emit_def fold_revoke_st start_def)

lemma upload_loop_log_snoc:
  "upload_loop_log pe files i (prs @ [(path, r)])
     = upload_loop_log pe files i prs
       @ [pe (i + length prs), StorageUpload (files ! (i + length prs)) path True r]"
  by (induction prs arbitrary: i) auto

lemma upload_loop:
  fixes L :: "nat \<Rightarrow> string list \<Rightarrow> ('s, 'p, 'w) sys \<Rightarrow> (error + string list) \<times> ('s, 'p, 'w) sys"
  assumes stop: "\<And>i urls \<sigma>. \<not> i < n \<Longrightarrow> L i urls \<sigma> = (Inr urls, \<sigma>)"
    and step: "\<And>i urls \<sigma>. i < n \<Longrightarrow>
       \<exists>path r \<sigma>2. log \<sigma>2 = log \<sigma> @ [pe i, StorageUpload (files ! i) path True r]
          \<and> parent \<sigma>2 = parent \<sigma> \<and> g (st \<sigma>2) = g (st \<sigma>)
          \<and> L i urls \<sigma> = (case r of Inl e \<Rightarrow> (Inl e, \<sigma>2)
                                     | Inr publicUrl \<Rightarrow> L (Suc i) (urls @ [publicUrl]) \<sigma>2)"
  shows "\<exists>prs. log (snd (L i urls \<sigma>)) = log \<sigma> @ upload_loop_log pe files i prs
           \<and> parent (snd (L i urls \<sigma>)) = parent \<sigma>
           \<and> g (st (snd (L i urls \<sigma>))) = g (st \<sigma>)
           \<and> (case fst (L i urls \<sigma>) of
                 Inr urls' \<Rightarrow> length prs = n - i \<and> (\<exists>new. map snd prs = map Inr new \<and> urls' = urls @ new)
               | Inl e \<Rightarrow> i + length prs \<le> n \<and> prs \<noteq> [] \<and> snd (last prs) = Inl e
                          \<and> (\<exists>new. map snd (butlast prs) = map Inr new))"
proof (induction "n - i" arbitrary: i urls \<sigma>)
  case 0
  then have "\<not> i < n" by simp
  then have "L i urls \<sigma> = (Inr urls, \<sigma>)" by (rule stop)
  with 0 show ?case by (intro exI [of _ "[]"]) simp
next
  case (Suc m)
  then have lt: "i < n" by simp
  from step [OF lt, where urls = urls and \<sigma> = \<sigma>] obtain path r \<sigma>2 where
    l2: "log \<sigma>2 = log \<sigma> @ [pe i, StorageUpload (files ! i) path True r]"
    and p2: "parent \<sigma>2 = parent \<sigma>" and g2: "g (st \<sigma>2) = g (st \<sigma>)"
    and L: "L i urls \<sigma> = (case r of Inl e \<Rightarrow> (Inl e, \<sigma>2)
                                   | Inr publicUrl \<Rightarrow> L (Suc i) (urls @ [publicUrl]) \<sigma>2)"
    by blast
  show ?case
  proof (cases r)
    case (Inl e)
    with L l2 p2 g2 lt show ?thesis
      by (intro exI [of _ "[(path, r)]"]) (simp add: exI [of _ "[]"])
  next
    case (Inr publicUrl)
    from Suc.hyps(2) lt have m: "m = n - Suc i" by simp
    from Suc.hyps(1) [OF m, where urls = "urls @ [publicUrl]" and \<sigma> = \<sigma>2] obtain prs where
      ih: "log (snd (L (Suc i) (urls @ [publicUrl]) \<sigma>2)) = log \<sigma>2 @ upload_loop_log pe files (Suc i) prs"
        "parent (snd (L (Suc i) (urls @ [publicUrl]) \<sigma>2)) = parent \<sigma>2"
        "g (st (snd (L (Suc i) (urls @ [publicUrl]) \<sigma>2))) = g (st \<sigma>2)"
        "(case fst (L (Suc i) (urls @ [publicUrl]) \<sigma>2) of
                 Inr urls' \<Rightarrow> length prs = n - Suc i \<and> (\<exists>new. map snd prs = map Inr new \<and> urls' = (urls @ [publicUrl]) @ new)
               | Inl e \<Rightarrow> Suc i + length prs \<le> n \<and> prs \<noteq> [] \<and> snd (last prs) = Inl e
                          \<and> (\<exists>new. map snd (butlast prs) = map Inr new))"
      by blast
    from L Inr have L': "L i urls \<sigma> = L (Suc i) (urls @ [publicUrl]) \<sigma>2" by simp
    show ?thesis
    proof (intro exI [of _ "(path, r) # prs"] conjI)
      show "log (snd (L i urls \<sigma>)) = log \<sigma> @ upload_loop_log pe files i ((path, r) # prs)"
        using ih(1) l2 L' by simp
      show "parent (snd (L i urls \<sigma>)) = parent \<sigma>" using ih(2) p2 L' by simp
      show "g (st (snd (L i urls \<sigma>))) = g (st \<sigma>)" using ih(3) g2 L' by simp
      show "case fst (L i urls \<sigma>) of
              Inr urls' \<Rightarrow> length ((path, r) # prs) = n - i
                 \<and> (\<exists>new. map snd ((path, r) # prs) = map Inr new \<and> urls' = urls @ new)
            | Inl e \<Rightarrow> i + length ((path, r) # prs) \<le> n \<and> (path, r) # prs \<noteq> []
                 \<and> snd (last ((path, r) # prs)) = Inl e
                 \<and> (\<exists>new. map snd (butlast ((path, r) # prs)) = map Inr new)"
      proof (cases "fst (L (Suc i) (urls @ [publicUrl]) \<sigma>2)")
        case (Inl e)
        with ih(4) obtain new where
          "Suc i + length prs \<le> n" "prs \<noteq> []" "snd (last prs) = Inl e"
          "map snd (butlast prs) = map Inr new" by auto
        with Inl L' Inr show ?thesis
          by (auto intro: exI [of _ "publicUrl # new"])
      next
        case (Inr urls')
        with ih(4) obtain new where
          "length prs = n - Suc i" "map snd prs = map Inr new" "urls' = (urls @ [publicUrl]) @ new"
          by auto
        with Inr L' \<open>r = Inr publicUrl\<close> lt show ?thesis
          by (auto intro: exI [of _ "publicUrl # new"])
      qed
    qed
  qed
qed


lemma view_upload_upload_loop_log:
  assumes "\<And>j. upload (pe j) = []" "i + length prs \<le> length files"
  shows "view upload (upload_loop_log pe files i prs)
           = zip (take (length prs) (drop i files)) (map snd prs)"
  using assms
proof (induction pe files i prs rule: upload_loop_log.induct)
  case (1 pe files i)
  then show ?case by simp
next
  case (2 pe files i path r rest)
  then have "i < length files" by simp
  then have "drop i files = files ! i # drop (Suc i) files"
    by (simp add: Cons_nth_drop_Suc)
  with 2 show ?case by simp
qed


lemma view_rejected_upload_loop_log_ok:
  assumes "\<And>j. rejected (pe j) = []" "map snd prs = map Inr new"
  shows "view rejected (upload_loop_log pe files i prs) = []"
  using assms
  by (induction pe files i prs arbitrary: new rule: upload_loop_log.induct) auto

lemma view_rejected_upload_loop_log_fail:
  assumes "\<And>j. rejected (pe j) = []" "prs \<noteq> []" "snd (last prs) = Inl e"
    "map snd (butlast prs) = map Inr new"
  shows "view rejected (upload_loop_log pe files i prs) = [e]"
proof -
  from assms(2) obtain prs' path r where prs: "prs = prs' @ [(path, r)]"
    by (metis surj_pair rev_exhaust)
  with assms(3) have r: "r = Inl e" by simp
  from prs assms(4) have "map snd prs' = map Inr new" by simp
  then have "view rejected (upload_loop_log pe files i prs') = []"
    using assms(1) by (rule view_rejected_upload_loop_log_ok [rotated])
  with prs r show ?thesis
    by (simp add: upload_loop_log_snoc assms(1))
qed


lemma upload_training_images_stop:
  "\<not> i < length imgs \<Longrightarrow> upload_training_images env u imgs i urls \<sigma> = (Inr urls, \<sigma>)"
  by (subst upload_training_images.simps) simp

lemma upload_training_images_step:
  assumes "i < length imgs"
  shows "\<exists>path r \<sigma>2.
           log \<sigma>2 = log \<sigma> @ [SetTrainingProgress ((of_nat i / of_nat (length imgs)) * 25),
                               StorageUpload (map img_file imgs ! i) path True r]
         \<and> parent \<sigma>2 = parent \<sigma>
         \<and> (st \<sigma>2)\<lparr>trainingProgress := 0\<rparr> = (st \<sigma>)\<lparr>trainingProgress := 0\<rparr>
         \<and> upload_training_images env u imgs i urls \<sigma>
             = (case r of Inl e \<Rightarrow> (Inl e, \<sigma>2)
                | Inr publicUrl \<Rightarrow> upload_training_images env u imgs (Suc i) (urls @ [publicUrl]) \<sigma>2)"
proof -
  define \<sigma>1 where "\<sigma>1 = setTrainingProgress ((of_nat i / of_nat (length imgs)) * 25) \<sigma>"
  define path where "path = ''lora-training/'' @ user_id u @ ''/''
     @ string_of_nat (date_now env (world \<sigma>1)) @ ''-'' @ string_of_nat i @ ''-''
     @ file_name (img_file (imgs ! i))"
  obtain r \<sigma>2 where up: "blink_storage_upload env (img_file (imgs ! i)) path True \<sigma>1 = (r, \<sigma>2)"
    by (cases "blink_storage_upload env (img_file (imgs ! i)) path True \<sigma>1")
  have "upload_training_images env u imgs i urls \<sigma>
          = (case r of Inl e \<Rightarrow> (Inl e, \<sigma>2)
             | Inr publicUrl \<Rightarrow> upload_training_images env u imgs (Suc i) (urls @ [publicUrl]) \<sigma>2)"
    using assms up
    by (subst upload_training_images.simps) (auto simp: Let_def \<sigma>1_def path_def split: sum.splits)
  moreover from up have "log \<sigma>2 = log \<sigma> @ [SetTrainingProgress ((of_nat i / of_nat (length imgs)) * 25),
                               StorageUpload (map img_file imgs ! i) path True r]"
    using assms
    by (auto simp: blink_storage_upload_def emit_def \<sigma>1_def setTrainingProgress_def
        split: prod.splits)
  moreover from up have "parent \<sigma>2 = parent \<sigma>"
    by (auto simp: blink_storage_upload_def emit_def \<sigma>1_def setTrainingProgress_def
        split: prod.splits)
  moreover from up have "(st \<sigma>2)\<lparr>trainingProgress := 0\<rparr> = (st \<sigma>)\<lparr>trainingProgress := 0\<rparr>"
    by (auto simp: blink_storage_upload_def emit_def \<sigma>1_def setTrainingProgress_def
        split: prod.splits)
  ultimately show ?thesis by blast
qed

lemma upload_training_images_log:
  "\<exists>prs. log (snd (upload_training_images env u imgs i urls \<sigma>))
           = log \<sigma> @ upload_loop_log (\<lambda>j. SetTrainingProgress ((of_nat j / of_nat (length imgs)) * 25))
                        (map img_file imgs) i prs
         \<and> parent (snd (upload_training_images env u imgs i urls \<sigma>)) = parent \<sigma>
         \<and> (st (snd (upload_training_images env u imgs i urls \<sigma>)))\<lparr>trainingProgress := 0\<rparr>
             = (st \<sigma>)\<lparr>trainingProgress := 0\<rparr>
         \<and> (case fst (upload_training_images env u imgs i urls \<sigma>) of
               Inr urls' \<Rightarrow> length prs = length imgs - i
                  \<and> (\<exists>new. map snd prs = map Inr new \<and> urls' = urls @ new)
             | Inl e \<Rightarrow> i + length prs \<le> length imgs \<and> prs \<noteq> [] \<and> snd (last prs) = Inl e
                  \<and> (\<exists>new. map snd (butlast prs) = map Inr new))"
  by (rule upload_loop [where L = "upload_training_images env u imgs" and n = "length imgs"
        and g = "\<lambda>s. s\<lparr>trainingProgress := 0\<rparr>",
        OF upload_training_images_stop upload_training_images_step])




lemma trainLoRAModel_rejected_fail:
  assumes "\<And>j. rejected (pe j) = []" "prs \<noteq> []" "snd (last prs) = Inl e"
    "map snd (butlast prs) = map Inr new"
    "log \<sigma>L = pre @ upload_loop_log pe files 0 prs"
  shows "view rejected (log \<sigma>L) = view rejected pre @ [e]"
  using assms by (simp add: view_rejected_upload_loop_log_fail)



subsection \<open>Object URLs, the guard and the progress of training\<close>

lemma removeReferenceImage_revoked:
  assumes "distinct (map img_id (ii_referenceImages t))"
  shows "view revoked (log (removeReferenceImage i (start t q v)))
           = map img_url (filter (\<lambda>img. img_id img = i) (ii_referenceImages t))"
proof -
  have "view revoked (log (removeReferenceImage i (start t q v)))
          = map img_url (case find (\<lambda>img. img_id img = i) (ii_referenceImages t) of
                           None \<Rightarrow> [] | Some x \<Rightarrow> [x])"
    by (simp add: removeReferenceImage_def prim_defs start_def ii_setReferenceImages_def Let_def
        split: option.splits)
  then show ?thesis using find_filter_distinct [OF assms] by simp
qed

lemma removeReferenceImage_st:
  "st (removeReferenceImage i (start t q v))
     = t\<lparr>ii_referenceImages := filter (\<lambda>img. img_id img \<noteq> i) (ii_referenceImages t)\<rparr>"
  by (simp add: removeReferenceImage_def prim_defs start_def ii_setReferenceImages_def Let_def
      split: option.splits)

lemma clearReferenceImages_revoked:
  "view revoked (log (clearReferenceImages (start t q v))) = map img_url (ii_referenceImages t)"
  by (simp add: clearReferenceImages_def ii_setReferenceImages_def emit_def fold_revoke_log
      fold_revoke_st view_revoked_map start_def)

lemma clearReferenceImages_st:
  "st (clearReferenceImages (start t q v)) = t\<lparr>ii_referenceImages := []\<rparr>"
  by (simp add: clearReferenceImages_def ii_setReferenceImages_def emit_def fold_revoke_st start_def)

lemma kept_urls_not_revoked:
  assumes "distinct (map img_url xs)"
  shows "\<forall>y \<in> set (filter (\<lambda>img. img_id img \<noteq> i) xs).
           img_url y \<notin> set (map img_url (filter (\<lambda>img. img_id img = i) xs))"
proof
  fix y assume y: "y \<in> set (filter (\<lambda>img. img_id img \<noteq> i) xs)"
  show "img_url y \<notin> set (map img_url (filter (\<lambda>img. img_id img = i) xs))"
  proof
    assume "img_url y \<in> set (map img_url (filter (\<lambda>img. img_id img = i) xs))"
    then obtain x where x: "x \<in> set xs" "img_id x = i" "img_url x = img_url y" by auto
    from assms have "inj_on img_url (set xs)" by (simp add: distinct_map)
    with x y have "x = y" by (auto dest: inj_onD)
    with x y show False by simp
  qed
qed

text \<open>
  C8. Object-URL lifecycle of the local previews. In a list whose ids are pairwise
  distinct, \<^verbatim>\<open>removeTrainingImage(id)\<close> revokes the object URL of exactly the image with
  that id (of none when there is none), removes that element at most, and changes nothing
  else of the state: the list that remains is the old list without the elements of that
  id, in the old order; when the object URLs are pairwise distinct too, no URL of an image
  that remains is revoked. \<^verbatim>\<open>clearTrainingImages\<close> revokes the object URL of every image,
  in list order, and leaves the list empty. \<^verbatim>\<open>removeReferenceImage\<close> and
  \<^verbatim>\<open>clearReferenceImages\<close> of the InstantID module do the same on \<^verbatim>\<open>referenceImages\<close>.
\<close>

theorem object_url_lifecycle:
  fixes s :: AppState and t :: InstantIDState
  assumes "distinct (map img_id (trainingImages s))"
    and "distinct (map img_id (ii_referenceImages t))"
  shows "view revoked (log (removeTrainingImage i (start s p w)))
           = map img_url (filter (\<lambda>img. img_id img = i) (trainingImages s))
       \<and> length (filter (\<lambda>img. img_id img = i) (trainingImages s)) \<le> 1
       \<and> st (removeTrainingImage i (start s p w))
           = s\<lparr>trainingImages := filter (\<lambda>img. img_id img \<noteq> i) (trainingImages s)\<rparr>
       \<and> (distinct (map img_url (trainingImages s)) \<longrightarrow>
            (\<forall>y \<in> set (trainingImages (st (removeTrainingImage i (start s p w)))).
               img_url y \<notin> set (view revoked (log (removeTrainingImage i (start s p w))))))
       \<and> view revoked (log (clearTrainingImages (start s p w))) = map img_url (trainingImages s)
       \<and> st (clearTrainingImages (start s p w)) = s\<lparr>trainingImages := []\<rparr>
       \<and> view revoked (log (removeReferenceImage i (start t q v)))
           = map img_url (filter (\<lambda>img. img_id img = i) (ii_referenceImages t))
       \<and> length (filter (\<lambda>img. img_id img = i) (ii_referenceImages t)) \<le> 1
       \<and> st (removeReferenceImage i (start t q v))
           = t\<lparr>ii_referenceImages := filter (\<lambda>img. img_id img \<noteq> i) (ii_referenceImages t)\<rparr>
       \<and> (distinct (map img_url (ii_referenceImages t)) \<longrightarrow>
            (\<forall>y \<in> set (ii_referenceImages (st (removeReferenceImage i (start t q v)))).
               img_url y \<notin> set (view revoked (log (removeReferenceImage i (start t q v))))))
       \<and> view revoked (log (clearReferenceImages (start t q v))) = map img_url (ii_referenceImages t)
       \<and> st (clearReferenceImages (start t q v)) = t\<lparr>ii_referenceImages := []\<rparr>"
proof (intro conjI impI)
  show "view revoked (log (removeTrainingImage i (start s p w)))
           = map img_url (filter (\<lambda>img. img_id img = i) (trainingImages s))"
    by (rule removeTrainingImage_revoked [OF assms(1)])
  show "length (filter (\<lambda>img. img_id img = i) (trainingImages s)) \<le> 1"
    by (rule filter_distinct_le1 [OF assms(1)])
  show "st (removeTrainingImage i (start s p w))
           = s\<lparr>trainingImages := filter (\<lambda>img. img_id img \<noteq> i) (trainingImages s)\<rparr>"
    by (rule removeTrainingImage_st)
  show "\<forall>y \<in> set (trainingImages (st (removeTrainingImage i (start s p w)))).
               img_url y \<notin> set (view revoked (log (removeTrainingImage i (start s p w))))"
    if "distinct (map img_url (trainingImages s))"
    using kept_urls_not_revoked [OF that, of i]
    by (simp only: removeTrainingImage_revoked [OF assms(1)] removeTrainingImage_st) simp
  show "view revoked (log (clearTrainingImages (start s p w))) = map img_url (trainingImages s)"
    by (rule clearTrainingImages_revoked)
  show "st (clearTrainingImages (start s p w)) = s\<lparr>trainingImages := []\<rparr>"
    by (rule clearTrainingImages_st)
  show "view revoked (log (removeReferenceImage i (start t q v)))
           = map img_url (filter (\<lambda>img. img_id img = i) (ii_referenceImages t))"
    by (rule removeReferenceImage_revoked [OF assms(2)])
  show "length (filter (\<lambda>img. img_id img = i) (ii_referenceImages t)) \<le> 1"
    by (rule filter_distinct_le1 [OF assms(2)])
  show "st (removeReferenceImage i (start t q v))
           = t\<lparr>ii_referenceImages := filter (\<lambda>img. img_id img \<noteq> i) (ii_referenceImages t)\<rparr>"
    by (rule removeReferenceImage_st)
  show "\<forall>y \<in> set (ii_referenceImages (st (removeReferenceImage i (start t q v)))).
               img_url y \<notin> set (view revoked (log (removeReferenceImage i (start t q v))))"
    if "distinct (map img_url (ii_referenceImages t))"
    using kept_urls_not_revoked [OF that, of i]
    by (simp only: removeReferenceImage_revoked [OF assms(2)] removeReferenceImage_st) simp
  show "view revoked (log (clearReferenceImages (start t q v))) = map img_url (ii_referenceImages t)"
    by (rule clearReferenceImages_revoked)
  show "st (clearReferenceImages (start t q v)) = t\<lparr>ii_referenceImages := []\<rparr>"
    by (rule clearReferenceImages_st)
qed

theorem object_url_lifecycle_witness:
  "distinct (map img_id (trainingImages app0))
   \<and> distinct (map img_id (ii_referenceImages instant0))
   \<and> view revoked (log (removeTrainingImage ''img_b'' (start app0 () (0::nat)))) = [''blob:b'']
   \<and> map img_id (trainingImages (st (removeTrainingImage ''img_b'' (start app0 () (0::nat)))))
       = [''img_a'', ''img_c'', ''img_d'', ''img_e'']
   \<and> view revoked (log (clearTrainingImages (start app0 () (0::nat))))
       = [''blob:a'', ''blob:b'', ''blob:c'', ''blob:d'', ''blob:e'']
   \<and> trainingImages (st (clearTrainingImages (start app0 () (0::nat)))) = []
   \<and> view revoked (log (removeReferenceImage ''img_b'' (start instant0 () (0::nat)))) = [''blob:b'']
   \<and> map img_id (ii_referenceImages (st (removeReferenceImage ''img_b'' (start instant0 () (0::nat)))))
       = [''img_a'']
   \<and> view revoked (log (clearReferenceImages (start instant0 () (0::nat)))) = [''blob:a'', ''blob:b'']
   \<and> ii_referenceImages (st (clearReferenceImages (start instant0 () (0::nat)))) = []"
proof -
  have h1: "distinct (map img_id (trainingImages app0))"
    by (simp add: app0_def images5_def image0_def)
  have h2: "distinct (map img_id (ii_referenceImages instant0))"
    by (simp add: instant0_def image0_def)
  show ?thesis
    using h1 h2 object_url_lifecycle [OF h1 h2, of "''img_b''" "()" "0::nat" "()" "0::nat"]
    by (simp add: app0_def images5_def image0_def instant0_def)
qed

text \<open>
  C9. The guard of \<^verbatim>\<open>trainLoRAModel\<close>. Called with fewer than 5 training images or with
  no signed-in user, it returns at once: the whole state of App (so \<^verbatim>\<open>trainingImages\<close>,
  \<^verbatim>\<open>currentModel\<close>, \<^verbatim>\<open>isTrainingModel\<close> and \<^verbatim>\<open>trainingProgress\<close>) and the outside world
  are as before, and the only event is the error toast of the case of fewer than 5 images:
  nothing is uploaded.
\<close>

theorem trainLoRAModel_guard:
  assumes "length (trainingImages s) < 5 \<or> user s = None"
  shows "st (trainLoRAModel env (start s p w)) = s
       \<and> world (trainLoRAModel env (start s p w)) = w
       \<and> log (trainLoRAModel env (start s p w))
           = (if length (trainingImages s) < 5
              then [ToastError ''Please upload at least 5 images to train a model''] else [])"
  using assms by (auto simp: trainLoRAModel_def prim_defs start_def)

theorem trainLoRAModel_guard_witness:
  "(length (trainingImages (app0\<lparr>user := None\<rparr>)) < 5 \<or> user (app0\<lparr>user := None\<rparr>) = None)
   \<and> st (trainLoRAModel env_ok (start (app0\<lparr>user := None\<rparr>) () 0)) = app0\<lparr>user := None\<rparr>
   \<and> world (trainLoRAModel env_ok (start (app0\<lparr>user := None\<rparr>) () 0)) = 0
   \<and> log (trainLoRAModel env_ok (start (app0\<lparr>user := None\<rparr>) () 0)) = []"
proof -
  have h: "length (trainingImages (app0\<lparr>user := None\<rparr>)) < 5 \<or> user (app0\<lparr>user := None\<rparr>) = None"
    by simp
  show ?thesis
    using h trainLoRAModel_guard [OF h, of env_ok "()" 0]
    by (simp add: app0_def images5_def)
qed

lemmas eval_defs = prim_defs start_def app_setter_defs Let_def trainLoRAModel_def trainLoRAModel_try_def
  trainLoRAModel_catch_def upload_training_images.simps training_step_def trainingSteps_def
  env_ok_def env_reject_def app0_def images5_def image0_def user0_def




subsection \<open>The upload loops\<close>

lemma view_upload_rejected_upload_loop_log_ok:
  assumes "\<And>j. upload_rejected (pe j) = []" "map snd prs = map Inr new"
  shows "view upload_rejected (upload_loop_log pe files i prs) = []"
  using assms
  by (induction pe files i prs arbitrary: new rule: upload_loop_log.induct) auto

lemma view_upload_rejected_upload_loop_log_fail:
  assumes "\<And>j. upload_rejected (pe j) = []" "prs \<noteq> []" "snd (last prs) = Inl e"
    "map snd (butlast prs) = map Inr new"
  shows "view upload_rejected (upload_loop_log pe files i prs) = [e]"
proof -
  from assms(2) obtain prs' path r where prs: "prs = prs' @ [(path, r)]"
    by (metis surj_pair rev_exhaust)
  with assms(3) have r: "r = Inl e" by simp
  from prs assms(4) have "map snd prs' = map Inr new" by simp
  then have "view upload_rejected (upload_loop_log pe files i prs') = []"
    using assms(1) by (rule view_upload_rejected_upload_loop_log_ok [rotated])
  with prs r show ?thesis
    by (simp add: upload_loop_log_snoc assms(1))
qed

lemma upload_reference_images_stop:
  "\<not> i < length imgs \<Longrightarrow> upload_reference_images env u imgs i urls \<sigma> = (Inr urls, \<sigma>)"
  by (subst upload_reference_images.simps) simp

lemma upload_reference_images_step:
  assumes "i < length imgs"
  shows "\<exists>path r \<sigma>2.
           log \<sigma>2 = log \<sigma> @ [SetGenerationProgress ((of_nat i / of_nat (length imgs)) * 30),
                               StorageUpload (map img_file imgs ! i) path True r]
         \<and> parent \<sigma>2 = parent \<sigma>
         \<and> (st \<sigma>2)\<lparr>ii_generationProgress := 0\<rparr> = (st \<sigma>)\<lparr>ii_generationProgress := 0\<rparr>
         \<and> upload_reference_images env u imgs i urls \<sigma>
             = (case r of Inl e \<Rightarrow> (Inl e, \<sigma>2)
                | Inr publicUrl \<Rightarrow> upload_reference_images env u imgs (Suc i) (urls @ [publicUrl]) \<sigma>2)"
proof -
  define \<sigma>1 where "\<sigma>1 = ii_setGenerationProgress ((of_nat i / of_nat (length imgs)) * 30) \<sigma>"
  define path where "path = ''instant-id/'' @ user_id u @ ''/''
     @ string_of_nat (date_now env (world \<sigma>1)) @ ''-'' @ string_of_nat i @ ''-''
     @ file_name (img_file (imgs ! i))"
  obtain r \<sigma>2 where up: "blink_storage_upload env (img_file (imgs ! i)) path True \<sigma>1 = (r, \<sigma>2)"
    by (cases "blink_storage_upload env (img_file (imgs ! i)) path True \<sigma>1")
  have "upload_reference_images env u imgs i urls \<sigma>
          = (case r of Inl e \<Rightarrow> (Inl e, \<sigma>2)
             | Inr publicUrl \<Rightarrow> upload_reference_images env u imgs (Suc i) (urls @ [publicUrl]) \<sigma>2)"
    using assms up
    by (subst upload_reference_images.simps) (auto simp: Let_def \<sigma>1_def path_def split: sum.splits)
  moreover from up have "log \<sigma>2 = log \<sigma> @ [SetGenerationProgress ((of_nat i / of_nat (length imgs)) * 30),
                               StorageUpload (map img_file imgs ! i) path True r]"
    using assms
    by (auto simp: blink_storage_upload_def emit_def \<sigma>1_def ii_setGenerationProgress_def
        split: prod.splits)
  moreover from up have "parent \<sigma>2 = parent \<sigma>"
    by (auto simp: blink_storage_upload_def emit_def \<sigma>1_def ii_setGenerationProgress_def
        split: prod.splits)
  moreover from up have "(st \<sigma>2)\<lparr>ii_generationProgress := 0\<rparr> = (st \<sigma>)\<lparr>ii_generationProgress := 0\<rparr>"
    by (auto simp: blink_storage_upload_def emit_def \<sigma>1_def ii_setGenerationProgress_def
        split: prod.splits)
  ultimately show ?thesis by blast
qed

lemma upload_reference_images_log:
  "\<exists>prs. log (snd (upload_reference_images env u imgs i urls \<sigma>))
           = log \<sigma> @ upload_loop_log (\<lambda>j. SetGenerationProgress ((of_nat j / of_nat (length imgs)) * 30))
                        (map img_file imgs) i prs
         \<and> parent (snd (upload_reference_images env u imgs i urls \<sigma>)) = parent \<sigma>
         \<and> (st (snd (upload_reference_images env u imgs i urls \<sigma>)))\<lparr>ii_generationProgress := 0\<rparr>
             = (st \<sigma>)\<lparr>ii_generationProgress := 0\<rparr>
         \<and> (case fst (upload_reference_images env u imgs i urls \<sigma>) of
               Inr urls' \<Rightarrow> length prs = length imgs - i
                  \<and> (\<exists>new. map snd prs = map Inr new \<and> urls' = urls @ new)
             | Inl e \<Rightarrow> i + length prs \<le> length imgs \<and> prs \<noteq> [] \<and> snd (last prs) = Inl e
                  \<and> (\<exists>new. map snd (butlast prs) = map Inr new))"
  by (rule upload_loop [where L = "upload_reference_images env u imgs" and n = "length imgs"
        and g = "\<lambda>s. s\<lparr>ii_generationProgress := 0\<rparr>",
        OF upload_reference_images_stop upload_reference_images_step])

lemma upload_photomaker_images_stop:
  "\<not> i < length imgs \<Longrightarrow> upload_photomaker_images env u imgs i urls \<sigma> = (Inr urls, \<sigma>)"
  by (subst upload_photomaker_images.simps) simp

lemma upload_photomaker_images_step:
  assumes "i < length imgs"
  shows "\<exists>path r \<sigma>2.
           log \<sigma>2 = log \<sigma> @ [SetGenerationProgress ((of_nat i / of_nat (length imgs)) * 25),
                               StorageUpload (map img_file imgs ! i) path True r]
         \<and> parent \<sigma>2 = parent \<sigma>
         \<and> (st \<sigma>2)\<lparr>pm_generationProgress := 0\<rparr> = (st \<sigma>)\<lparr>pm_generationProgress := 0\<rparr>
         \<and> upload_photomaker_images env u imgs i urls \<sigma>
             = (case r of Inl e \<Rightarrow> (Inl e, \<sigma>2)
                | Inr publicUrl \<Rightarrow> upload_photomaker_images env u imgs (Suc i) (urls @ [publicUrl]) \<sigma>2)"
proof -
  define \<sigma>1 where "\<sigma>1 = pm_setGenerationProgress ((of_nat i / of_nat (length imgs)) * 25) \<sigma>"
  define path where "path = ''photomaker/'' @ user_id u @ ''/''
     @ string_of_nat (date_now env (world \<sigma>1)) @ ''-'' @ string_of_nat i @ ''-''
     @ file_name (img_file (imgs ! i))"
  obtain r \<sigma>2 where up: "blink_storage_upload env (img_file (imgs ! i)) path True \<sigma>1 = (r, \<sigma>2)"
    by (cases "blink_storage_upload env (img_file (imgs ! i)) path True \<sigma>1")
  have "upload_photomaker_images env u imgs i urls \<sigma>
          = (case r of Inl e \<Rightarrow> (Inl e, \<sigma>2)
             | Inr publicUrl \<Rightarrow> upload_photomaker_images env u imgs (Suc i) (urls @ [publicUrl]) \<sigma>2)"
    using assms up
    by (subst upload_photomaker_images.simps) (auto simp: Let_def \<sigma>1_def path_def split: sum.splits)
  moreover from up have "log \<sigma>2 = log \<sigma> @ [SetGenerationProgress ((of_nat i / of_nat (length imgs)) * 25),
                               StorageUpload (map img_file imgs ! i) path True r]"
    using assms
    by (auto simp: blink_storage_upload_def emit_def \<sigma>1_def pm_setGenerationProgress_def
        split: prod.splits)
  moreover from up have "parent \<sigma>2 = parent \<sigma>"
    by (auto simp: blink_storage_upload_def emit_def \<sigma>1_def pm_setGenerationProgress_def
        split: prod.splits)
  moreover from up have "(st \<sigma>2)\<lparr>pm_generationProgress := 0\<rparr> = (st \<sigma>)\<lparr>pm_generationProgress := 0\<rparr>"
    by (auto simp: blink_storage_upload_def emit_def \<sigma>1_def pm_setGenerationProgress_def
        split: prod.splits)
  ultimately show ?thesis by blast
qed

lemma upload_photomaker_images_log:
  "\<exists>prs. log (snd (upload_photomaker_images env u imgs i urls \<sigma>))
           = log \<sigma> @ upload_loop_log (\<lambda>j. SetGenerationProgress ((of_nat j / of_nat (length imgs)) * 25))
                        (map img_file imgs) i prs
         \<and> parent (snd (upload_photomaker_images env u imgs i urls \<sigma>)) = parent \<sigma>
         \<and> (st (snd (upload_photomaker_images env u imgs i urls \<sigma>)))\<lparr>pm_generationProgress := 0\<rparr>
             = (st \<sigma>)\<lparr>pm_generationProgress := 0\<rparr>
         \<and> (case fst (upload_photomaker_images env u imgs i urls \<sigma>) of
               Inr urls' \<Rightarrow> length prs = length imgs - i
                  \<and> (\<exists>new. map snd prs = map Inr new \<and> urls' = urls @ new)
             | Inl e \<Rightarrow> i + length prs \<le> length imgs \<and> prs \<noteq> [] \<and> snd (last prs) = Inl e
                  \<and> (\<exists>new. map snd (butlast prs) = map Inr new))"
  by (rule upload_loop [where L = "upload_photomaker_images env u imgs" and n = "length imgs"
        and g = "\<lambda>s. s\<lparr>pm_generationProgress := 0\<rparr>",
        OF upload_photomaker_images_stop upload_photomaker_images_step])

text \<open>What the generic loop lemma says about the uploads of a loop that starts at 0.\<close>

lemma upload_loop_uploads:
  assumes "\<And>j. upload (pe j) = []"
    and "log \<sigma>' = log \<sigma> @ upload_loop_log pe (map img_file imgs) 0 prs"
    and "case r of
           Inr urls' \<Rightarrow> length prs = length imgs - 0
              \<and> (\<exists>new. map snd prs = map Inr new \<and> urls' = [] @ new)
         | Inl e \<Rightarrow> 0 + length prs \<le> length imgs \<and> prs \<noteq> [] \<and> snd (last prs) = Inl e
              \<and> (\<exists>new. map snd (butlast prs) = map Inr new)"
  shows "(\<forall>uploadedUrls. r = Inr uploadedUrls \<longrightarrow>
            length uploadedUrls = length imgs
          \<and> view upload (log \<sigma>') = view upload (log \<sigma>) @ zip (map img_file imgs) (map Inr uploadedUrls))
       \<and> (\<forall>e. r = Inl e \<longrightarrow>
            (\<exists>k urls. k < length imgs \<and> length urls = k
               \<and> view upload (log \<sigma>') = view upload (log \<sigma>)
                    @ zip (map img_file (take k imgs)) (map Inr urls) @ [(img_file (imgs ! k), Inl e)]))"
proof (intro conjI allI impI)
  fix uploadedUrls assume r: "r = Inr uploadedUrls"
  with assms(3) have len: "length prs = length imgs" and m: "map snd prs = map Inr uploadedUrls"
    by auto
  from m have "length uploadedUrls = length prs" by (metis length_map)
  with len show "length uploadedUrls = length imgs" by simp
  show "view upload (log \<sigma>') = view upload (log \<sigma>) @ zip (map img_file imgs) (map Inr uploadedUrls)"
    using len m by (simp add: assms(2) view_upload_upload_loop_log [OF assms(1)])
next
  fix e assume r: "r = Inl e"
  with assms(3) obtain new where
    le: "length prs \<le> length imgs" and ne: "prs \<noteq> []" and la: "snd (last prs) = Inl e"
    and m: "map snd (butlast prs) = map Inr new" by auto
  define k where "k = length prs - 1"
  from ne have lp: "length prs = Suc k" by (simp add: k_def)
  with le have k: "k < length imgs" by simp
  from m lp have ln: "length new = k" by (metis length_map length_butlast diff_Suc_1)
  from ne have "map snd prs = map snd (butlast prs) @ [snd (last prs)]"
    by (metis append_butlast_last_id map_append list.simps(8,9))
  with m la have ms: "map snd prs = map Inr new @ [Inl e]" by simp
  from k have tk: "take (Suc k) (map img_file imgs) = map img_file (take k imgs) @ [img_file (imgs ! k)]"
    by (simp add: take_Suc_conv_app_nth take_map)
  have "view upload (log \<sigma>') = view upload (log \<sigma>)
          @ zip (take (length prs) (map img_file imgs)) (map snd prs)"
    using le by (simp add: assms(2) view_upload_upload_loop_log [OF assms(1)])
  also have "zip (take (length prs) (map img_file imgs)) (map snd prs)
      = zip (map img_file (take k imgs)) (map Inr new) @ [(img_file (imgs ! k), Inl e)]"
    using k ln by (simp add: lp tk ms)
  finally show "\<exists>k urls. k < length imgs \<and> length urls = k
               \<and> view upload (log \<sigma>') = view upload (log \<sigma>)
                    @ zip (map img_file (take k imgs)) (map Inr urls) @ [(img_file (imgs ! k), Inl e)]"
    using k ln by blast
qed

text \<open>
  C6. The sequential upload loops of \<^verbatim>\<open>trainLoRAModel\<close> and \<^verbatim>\<open>generateWithInstantID\<close>.
  The model of \<^verbatim>\<open>await\<close> hands the world that one upload returns to the next, so the
  uploads happen one at a time. For every list of images: when the loop completes,
  \<^verbatim>\<open>uploadedUrls\<close> is as long as the list, and the uploads that the loop added to the log
  are, in order, the file of image \<open>i\<close> answered with \<^verbatim>\<open>uploadedUrls[i]\<close>; when an upload is
  rejected, the uploads made are those of the first \<open>k\<close> images in list order, answered with
  URLs, and then the rejected one of image \<open>k\<close>.
\<close>

theorem upload_loops_preserve_order:
  fixes env :: "'w Env" and u :: User and imgs :: "TrainingImage list"
    and \<sigma> :: "(AppState, 'p, 'w) sys" and \<tau> :: "(InstantIDState, 'q, 'w) sys"
  defines "R \<equiv> upload_training_images env u imgs 0 [] \<sigma>"
  defines "Q \<equiv> upload_reference_images env u imgs 0 [] \<tau>"
  shows "(\<forall>uploadedUrls. fst R = Inr uploadedUrls \<longrightarrow>
            length uploadedUrls = length imgs
          \<and> view upload (log (snd R)) = view upload (log \<sigma>) @ zip (map img_file imgs) (map Inr uploadedUrls))
       \<and> (\<forall>e. fst R = Inl e \<longrightarrow>
            (\<exists>k urls. k < length imgs \<and> length urls = k
               \<and> view upload (log (snd R)) = view upload (log \<sigma>)
                    @ zip (map img_file (take k imgs)) (map Inr urls) @ [(img_file (imgs ! k), Inl e)]))
       \<and> (\<forall>uploadedUrls. fst Q = Inr uploadedUrls \<longrightarrow>
            length uploadedUrls = length imgs
          \<and> view upload (log (snd Q)) = view upload (log \<tau>) @ zip (map img_file imgs) (map Inr uploadedUrls))
       \<and> (\<forall>e. fst Q = Inl e \<longrightarrow>
            (\<exists>k urls. k < length imgs \<and> length urls = k
               \<and> view upload (log (snd Q)) = view upload (log \<tau>)
                    @ zip (map img_file (take k imgs)) (map Inr urls) @ [(img_file (imgs ! k), Inl e)]))"
proof -
  from upload_training_images_log [of env u imgs 0 "[]" \<sigma>] obtain prs where
    "log (snd R) = log \<sigma> @ upload_loop_log (\<lambda>j. SetTrainingProgress ((of_nat j / of_nat (length imgs)) * 25))
                        (map img_file imgs) 0 prs"
    "case fst R of
               Inr urls' \<Rightarrow> length prs = length imgs - 0
                  \<and> (\<exists>new. map snd prs = map Inr new \<and> urls' = [] @ new)
             | Inl e \<Rightarrow> 0 + length prs \<le> length imgs \<and> prs \<noteq> [] \<and> snd (last prs) = Inl e
                  \<and> (\<exists>new. map snd (butlast prs) = map Inr new)"
    unfolding R_def by blast
  note a = upload_loop_uploads [OF _ this]
  from upload_reference_images_log [of env u imgs 0 "[]" \<tau>] obtain prs' where
    "log (snd Q) = log \<tau> @ upload_loop_log (\<lambda>j. SetGenerationProgress ((of_nat j / of_nat (length imgs)) * 30))
                        (map img_file imgs) 0 prs'"
    "case fst Q of
               Inr urls' \<Rightarrow> length prs' = length imgs - 0
                  \<and> (\<exists>new. map snd prs' = map Inr new \<and> urls' = [] @ new)
             | Inl e \<Rightarrow> 0 + length prs' \<le> length imgs \<and> prs' \<noteq> [] \<and> snd (last prs') = Inl e
                  \<and> (\<exists>new. map snd (butlast prs') = map Inr new)"
    unfolding Q_def by blast
  note b = upload_loop_uploads [OF _ this]
  from a b show ?thesis by simp
qed

lemma loop_eval_training:
  "fst (upload_training_images env_ok user0 images5 0 [] (start app0 () 0))
     = Inr [''cdn/a.png'', ''cdn/b.png'', ''cdn/c.png'', ''cdn/d.png'', ''cdn/e.png'']"
  by (simp add: eval_defs)

lemma loop_eval_reference:
  "fst (upload_reference_images env_reject user0 images5 0 [] (start instant0 () 0))
     = Inl (Error ''network'')"
  by (simp add: eval_defs upload_reference_images.simps ii_setGenerationProgress_def)

theorem upload_loops_preserve_order_witness:
  "fst (upload_training_images env_ok user0 images5 0 [] (start app0 () 0))
     = Inr [''cdn/a.png'', ''cdn/b.png'', ''cdn/c.png'', ''cdn/d.png'', ''cdn/e.png'']
   \<and> view upload (log (snd (upload_training_images env_ok user0 images5 0 [] (start app0 () 0))))
     = zip (map img_file images5)
           (map Inr [''cdn/a.png'', ''cdn/b.png'', ''cdn/c.png'', ''cdn/d.png'', ''cdn/e.png''])
   \<and> fst (upload_reference_images env_reject user0 images5 0 [] (start instant0 () 0))
     = Inl (Error ''network'')
   \<and> (\<exists>k urls. k < length images5 \<and> length urls = k
         \<and> view upload (log (snd (upload_reference_images env_reject user0 images5 0 []
                                    (start instant0 () 0))))
            = zip (map img_file (take k images5)) (map Inr urls)
              @ [(img_file (images5 ! k), Inl (Error ''network''))])"
proof -
  note a = upload_loops_preserve_order [of env_ok user0 images5 "start app0 () 0" "start instant0 () 0"]
  note b = upload_loops_preserve_order [of env_reject user0 images5 "start app0 () 0" "start instant0 () 0"]
  have l0: "log (start app0 () (0::nat)) = []" "log (start instant0 () (0::nat)) = []"
    by (simp_all add: start_def)
  from a loop_eval_training l0 have 1:
    "view upload (log (snd (upload_training_images env_ok user0 images5 0 [] (start app0 () 0))))
     = zip (map img_file images5)
           (map Inr [''cdn/a.png'', ''cdn/b.png'', ''cdn/c.png'', ''cdn/d.png'', ''cdn/e.png''])"
    by simp
  from b loop_eval_reference l0 have 2:
    "\<exists>k urls. k < length images5 \<and> length urls = k
         \<and> view upload (log (snd (upload_reference_images env_reject user0 images5 0 []
                                    (start instant0 () 0))))
            = zip (map img_file (take k images5)) (map Inr urls)
              @ [(img_file (images5 ! k), Inl (Error ''network''))]"
    by simp
  from 1 2 loop_eval_training loop_eval_reference show ?thesis by blast
qed

subsection \<open>The runs of the generation handlers, case by case\<close>

lemmas gtp_defs = generateTravelPhoto_def generateTravelPhoto_try_def generateTravelPhoto_catch_def
  prim_defs start_def app_setter_defs Let_def

lemma map_map_enumerate:
  "(\<And>i x. f (g i x) = h x) \<Longrightarrow> map f (map (\<lambda>(i, x). g i x) (enumerate n xs)) = map h xs"
  by (induction xs arbitrary: n) simp_all

lemma gtp_cases [consumes 3, case_names upload_rejected invalid ai_rejected no_data success]:
  fixes s :: AppState and p :: 'p and w :: 'w and env :: "'w Env"
  assumes "selectedFile s = Some f" "user s = Some u" "selectedDestination s \<noteq> []"
  defines "R \<equiv> generateTravelPhoto env (start s p w)"
  defines "ps \<equiv> \<lambda>dest url.
     \<lparr>mp_images = [url],
      mp_prompt = (if useCustomModel s \<and> map_option status (currentModel s) = Some Ready
                   then loraEnhancedPrompt dest else travelPhotoPrompt dest),
      mp_quality = ''high'', mp_size = ''1024x1024'',
      mp_n = (if generateMultiple s then 3 else 1)\<rparr>"
  obtains
    (upload_rejected) path e where
      "log R = [SetIsGenerating True, SetGenerationProgress 0, StorageUpload f path True (Inl e),
                ConsoleError ''Generation error:'' e,
                ToastError ''Failed to generate travel photo. Please try again.'',
                SetIsGenerating False, SetGenerationProgress 0]"
      "st R = s\<lparr>isGenerating := False, generationProgress := 0\<rparr>"
  | (invalid) path url where
      "find (\<lambda>d. d_id d = selectedDestination s) TRAVEL_DESTINATIONS = None"
      "log R = [SetIsGenerating True, SetGenerationProgress 0, StorageUpload f path True (Inr url),
                SetGenerationProgress 25,
                ConsoleError ''Generation error:'' (Error ''Invalid destination''),
                ToastError ''Failed to generate travel photo. Please try again.'',
                SetIsGenerating False, SetGenerationProgress 0]"
      "st R = s\<lparr>isGenerating := False, generationProgress := 0\<rparr>"
  | (ai_rejected) path url dest e where
      "find (\<lambda>d. d_id d = selectedDestination s) TRAVEL_DESTINATIONS = Some dest"
      "log R = [SetIsGenerating True, SetGenerationProgress 0, StorageUpload f path True (Inr url),
                SetGenerationProgress 25, SetGenerationProgress 50,
                AiModifyImage (ps dest url) (Inl e),
                ConsoleError ''Generation error:'' e,
                ToastError ''Failed to generate travel photo. Please try again.'',
                SetIsGenerating False, SetGenerationProgress 0]"
      "st R = s\<lparr>isGenerating := False, generationProgress := 0\<rparr>"
  | (no_data) path url dest data where
      "find (\<lambda>d. d_id d = selectedDestination s) TRAVEL_DESTINATIONS = Some dest"
      "data = None \<or> data = Some []"
      "log R = [SetIsGenerating True, SetGenerationProgress 0, StorageUpload f path True (Inr url),
                SetGenerationProgress 25, SetGenerationProgress 50,
                AiModifyImage (ps dest url) (Inr data), SetGenerationProgress 75,
                ConsoleError ''Generation error:'' (Error ''Failed to generate image''),
                ToastError ''Failed to generate travel photo. Please try again.'',
                SetIsGenerating False, SetGenerationProgress 0]"
      "st R = s\<lparr>isGenerating := False, generationProgress := 0\<rparr>"
  | (success) path url dest imgs new m where
      "find (\<lambda>d. d_id d = selectedDestination s) TRAVEL_DESTINATIONS = Some dest"
      "imgs \<noteq> []" "map gi_url new = map ir_url imgs"
      "\<forall>g \<in> set new. destination g = d_name dest \<and> originalImage g = url"
      "log R = [SetIsGenerating True, SetGenerationProgress 0, StorageUpload f path True (Inr url),
                SetGenerationProgress 25, SetGenerationProgress 50,
                AiModifyImage (ps dest url) (Inr (Some imgs)), SetGenerationProgress 75,
                SetGeneratedImages (new @ generatedImages s), SetGenerationProgress 100,
                ToastSuccess m, SetIsGenerating False, SetGenerationProgress 0]"
      "st R = s\<lparr>generatedImages := new @ generatedImages s, isGenerating := False,
                  generationProgress := 0\<rparr>"
proof -
  define path where "path = ''originals/'' @ user_id u @ ''/'' @ string_of_nat (date_now env w)
                 @ ''-'' @ file_name f"
  obtain r1 w1 where up: "storage_upload env f path True w = (r1, w1)"
    by (cases "storage_upload env f path True w")
  show thesis
  proof (cases r1)
    case (Inl e)
    have "log R = [SetIsGenerating True, SetGenerationProgress 0, StorageUpload f path True (Inl e),
                ConsoleError ''Generation error:'' e,
                ToastError ''Failed to generate travel photo. Please try again.'',
                SetIsGenerating False, SetGenerationProgress 0]"
      and "st R = s\<lparr>isGenerating := False, generationProgress := 0\<rparr>"
      using assms(1-3) up Inl by (simp_all add: R_def gtp_defs path_def)
    then show thesis by (rule upload_rejected)
  next
    case (Inr url)
    show thesis
    proof (cases "find (\<lambda>d. d_id d = selectedDestination s) TRAVEL_DESTINATIONS")
      case None
      have "log R = [SetIsGenerating True, SetGenerationProgress 0, StorageUpload f path True (Inr url),
                SetGenerationProgress 25,
                ConsoleError ''Generation error:'' (Error ''Invalid destination''),
                ToastError ''Failed to generate travel photo. Please try again.'',
                SetIsGenerating False, SetGenerationProgress 0]"
        and "st R = s\<lparr>isGenerating := False, generationProgress := 0\<rparr>"
        using assms(1-3) up Inr None by (simp_all add: R_def gtp_defs path_def)
      with None show thesis by (rule invalid)
    next
      case (Some dest)
      obtain r2 w2 where ai: "ai_modifyImage env (ps dest url) w1 = (r2, w2)"
        by (cases "ai_modifyImage env (ps dest url) w1")
      show thesis
      proof (cases r2)
        case (Inl e)
        have "log R = [SetIsGenerating True, SetGenerationProgress 0, StorageUpload f path True (Inr url),
                SetGenerationProgress 25, SetGenerationProgress 50,
                AiModifyImage (ps dest url) (Inl e),
                ConsoleError ''Generation error:'' e,
                ToastError ''Failed to generate travel photo. Please try again.'',
                SetIsGenerating False, SetGenerationProgress 0]"
          and "st R = s\<lparr>isGenerating := False, generationProgress := 0\<rparr>"
          using assms(1-3) up Inr Some ai Inl by (simp_all add: R_def gtp_defs path_def ps_def)
        with Some show thesis by (rule ai_rejected)
      next
        case r2: (Inr data)
        show thesis
        proof (cases "data = None \<or> data = Some []")
          case True
          have "log R = [SetIsGenerating True, SetGenerationProgress 0, StorageUpload f path True (Inr url),
                SetGenerationProgress 25, SetGenerationProgress 50,
                AiModifyImage (ps dest url) (Inr data), SetGenerationProgress 75,
                ConsoleError ''Generation error:'' (Error ''Failed to generate image''),
                ToastError ''Failed to generate travel photo. Please try again.'',
                SetIsGenerating False, SetGenerationProgress 0]"
            and "st R = s\<lparr>isGenerating := False, generationProgress := 0\<rparr>"
            using assms(1-3) up Inr Some ai r2 True
            by (auto simp: R_def gtp_defs path_def ps_def)
          with Some True show thesis by (rule no_data)
        next
          case False
          then obtain imgs where imgs: "data = Some imgs" "imgs \<noteq> []" by auto
          define new where "new = map (\<lambda>(index, img).
               \<lparr>gi_id = ''gen_'' @ string_of_nat (date_now env w2) @ ''_'' @ string_of_nat index,
                gi_url = ir_url img, destination = d_name dest, originalImage = url,
                originalImages = None, createdAt = toISOString env (date_now env w2)\<rparr>)
               (enumerate 0 imgs)"
          have n1: "map gi_url new = map ir_url imgs"
            unfolding new_def by (rule map_map_enumerate) simp
          have n2: "\<forall>g \<in> set new. destination g = d_name dest \<and> originalImage g = url"
            by (auto simp: new_def)
          have "\<exists>m. log R = [SetIsGenerating True, SetGenerationProgress 0, StorageUpload f path True (Inr url),
                SetGenerationProgress 25, SetGenerationProgress 50,
                AiModifyImage (ps dest url) (Inr (Some imgs)), SetGenerationProgress 75,
                SetGeneratedImages (new @ generatedImages s), SetGenerationProgress 100,
                ToastSuccess m, SetIsGenerating False, SetGenerationProgress 0]"
            and "st R = s\<lparr>generatedImages := new @ generatedImages s, isGenerating := False,
                  generationProgress := 0\<rparr>"
            using assms(1-3) up Inr Some ai r2 imgs
            by (simp_all add: R_def gtp_defs path_def ps_def new_def)
          with Some imgs(2) n1 n2 show thesis by (blast intro: success)
        qed
      qed
    qed
  qed
qed

lemma fold_call_onImageGenerated:
  "log (fold (call_onImageGenerated props) xs \<sigma>) = log \<sigma> @ map OnImageGenerated xs"
  "parent (fold (call_onImageGenerated props) xs \<sigma>) = fold (onImageGenerated props) xs (parent \<sigma>)"
  "st (fold (call_onImageGenerated props) xs \<sigma>) = st \<sigma>"
  "world (fold (call_onImageGenerated props) xs \<sigma>) = world \<sigma>"
  by (induction xs arbitrary: \<sigma>) (simp_all add: call_onImageGenerated_def emit_def)

lemmas ii_setter_defs = ii_setReferenceImages_def ii_setIsGenerating_def ii_setGenerationProgress_def

lemma generateWithInstantID_try_Inl:
  assumes "upload_reference_images env (p_user props) imgs 0 []
             (toast_success ''Uploading reference images...'' \<sigma>) = (Inl e, \<sigma>L)"
  shows "generateWithInstantID_try env props imgs \<sigma> = (Inl e, \<sigma>L)"
  using assms by (simp add: generateWithInstantID_try_def Let_def)

lemma ii_cases [consumes 2, case_names upload_rejected invalid ai_rejected no_data success]:
  fixes t :: InstantIDState and par :: 'p and w :: 'w and env :: "'w Env" and props :: "'p ModuleProps"
  assumes "ii_referenceImages t \<noteq> []" "p_selectedDestination props \<noteq> []"
  defines "R \<equiv> generateWithInstantID env props (start t par w)"
  defines "pe \<equiv> \<lambda>j. SetGenerationProgress ((of_nat j / of_nat (length (ii_referenceImages t))) * 30)"
  defines "files \<equiv> map img_file (ii_referenceImages t)"
  defines "pre \<equiv> [SetIsGenerating True, SetGenerationProgress 0,
                   ToastSuccess ''Uploading reference images...'']"
  defines "ps \<equiv> \<lambda>dest urls.
     \<lparr>mp_images = urls, mp_prompt = instantIDPrompt dest,
      mp_quality = ''high'', mp_size = ''1024x1024'', mp_n = 3\<rparr>"
  defines "fin \<equiv> [ToastError ''Failed to generate InstantID photos. Please try again.'',
                   SetIsGenerating False, SetGenerationProgress 0]"
  obtains
    (upload_rejected) e prs urls where
      "prs \<noteq> []" "length prs \<le> length (ii_referenceImages t)" "snd (last prs) = Inl e"
      "map snd (butlast prs) = map Inr urls"
      "log R = pre @ upload_loop_log pe files 0 prs
               @ ConsoleError ''InstantID generation error:'' e # fin"
      "st R = t\<lparr>ii_isGenerating := False, ii_generationProgress := 0\<rparr>" "parent R = par"
  | (invalid) prs urls where
      "length prs = length (ii_referenceImages t)" "map snd prs = map Inr urls"
      "find (\<lambda>d. d_id d = p_selectedDestination props) (p_TRAVEL_DESTINATIONS props) = None"
      "log R = pre @ upload_loop_log pe files 0 prs
               @ SetGenerationProgress 40
               # ConsoleError ''InstantID generation error:'' (Error ''Invalid destination'') # fin"
      "st R = t\<lparr>ii_isGenerating := False, ii_generationProgress := 0\<rparr>" "parent R = par"
  | (ai_rejected) prs urls dest e where
      "length prs = length (ii_referenceImages t)" "map snd prs = map Inr urls"
      "find (\<lambda>d. d_id d = p_selectedDestination props) (p_TRAVEL_DESTINATIONS props) = Some dest"
      "log R = pre @ upload_loop_log pe files 0 prs
               @ [SetGenerationProgress 40, SetGenerationProgress 50,
                  ToastSuccess ''Processing with InstantID...'', SetGenerationProgress 70,
                  AiModifyImage (ps dest urls) (Inl e),
                  ConsoleError ''InstantID generation error:'' e] @ fin"
      "st R = t\<lparr>ii_isGenerating := False, ii_generationProgress := 0\<rparr>" "parent R = par"
  | (no_data) prs urls dest data where
      "length prs = length (ii_referenceImages t)" "map snd prs = map Inr urls"
      "find (\<lambda>d. d_id d = p_selectedDestination props) (p_TRAVEL_DESTINATIONS props) = Some dest"
      "data = None \<or> data = Some []"
      "log R = pre @ upload_loop_log pe files 0 prs
               @ [SetGenerationProgress 40, SetGenerationProgress 50,
                  ToastSuccess ''Processing with InstantID...'', SetGenerationProgress 70,
                  AiModifyImage (ps dest urls) (Inr data), SetGenerationProgress 90,
                  ConsoleError ''InstantID generation error:'' (Error ''Failed to generate images'')]
               @ fin"
      "st R = t\<lparr>ii_isGenerating := False, ii_generationProgress := 0\<rparr>" "parent R = par"
  | (success) prs urls dest res new m where
      "length prs = length (ii_referenceImages t)" "map snd prs = map Inr urls"
      "find (\<lambda>d. d_id d = p_selectedDestination props) (p_TRAVEL_DESTINATIONS props) = Some dest"
      "res \<noteq> []" "map gi_url new = map ir_url res"
      "\<forall>g \<in> set new. destination g = d_name dest \<and> originalImages g = Some urls"
      "log R = pre @ upload_loop_log pe files 0 prs
               @ [SetGenerationProgress 40, SetGenerationProgress 50,
                  ToastSuccess ''Processing with InstantID...'', SetGenerationProgress 70,
                  AiModifyImage (ps dest urls) (Inr (Some res)), SetGenerationProgress 90]
               @ map OnImageGenerated new
               @ [SetGenerationProgress 100, ToastSuccess m, SetIsGenerating False,
                  SetGenerationProgress 0]"
      "st R = t\<lparr>ii_isGenerating := False, ii_generationProgress := 0\<rparr>"
      "parent R = fold (onImageGenerated props) new par"
proof -
  define \<sigma>2 where "\<sigma>2 = ii_setGenerationProgress 0 (ii_setIsGenerating True (start t par w))"
  define \<sigma>1 where "\<sigma>1 = toast_success ''Uploading reference images...'' \<sigma>2"
  have l1: "log \<sigma>1 = pre" and p1: "parent \<sigma>1 = par"
    and s1: "(st \<sigma>1)\<lparr>ii_generationProgress := 0\<rparr> = t\<lparr>ii_isGenerating := True, ii_generationProgress := 0\<rparr>"
    by (simp_all add: \<sigma>1_def \<sigma>2_def prim_defs start_def ii_setter_defs pre_def)
  obtain r \<sigma>L where loop: "upload_reference_images env (p_user props) (ii_referenceImages t) 0 [] \<sigma>1 = (r, \<sigma>L)"
    by (cases "upload_reference_images env (p_user props) (ii_referenceImages t) 0 [] \<sigma>1")
  from upload_reference_images_log [of env "p_user props" "ii_referenceImages t" 0 "[]" \<sigma>1] loop l1 p1
  obtain prs where
    lL: "log \<sigma>L = pre @ upload_loop_log pe files 0 prs" and pL: "parent \<sigma>L = par"
    and sL: "(st \<sigma>L)\<lparr>ii_generationProgress := 0\<rparr> = (st \<sigma>1)\<lparr>ii_generationProgress := 0\<rparr>"
    and res: "case r of
               Inr urls' \<Rightarrow> length prs = length (ii_referenceImages t) - 0
                  \<and> (\<exists>new. map snd prs = map Inr new \<and> urls' = [] @ new)
             | Inl e \<Rightarrow> 0 + length prs \<le> length (ii_referenceImages t) \<and> prs \<noteq> [] \<and> snd (last prs) = Inl e
                  \<and> (\<exists>new. map snd (butlast prs) = map Inr new)"
    by (auto simp: pe_def files_def)
  from sL s1 have sL': "(st \<sigma>L)\<lparr>ii_generationProgress := 0\<rparr> = t\<lparr>ii_isGenerating := True, ii_generationProgress := 0\<rparr>"
    by simp
  have stF: "(st \<sigma>L)\<lparr>ii_generationProgress := a, ii_isGenerating := False, ii_generationProgress := 0\<rparr>
      = t\<lparr>ii_isGenerating := False, ii_generationProgress := 0\<rparr>" for a
  proof -
    have "(st \<sigma>L)\<lparr>ii_generationProgress := a, ii_isGenerating := False, ii_generationProgress := 0\<rparr>
        = ((st \<sigma>L)\<lparr>ii_generationProgress := 0\<rparr>)\<lparr>ii_isGenerating := False\<rparr>" by simp
    also have "\<dots> = t\<lparr>ii_isGenerating := False, ii_generationProgress := 0\<rparr>"
      by (simp only: sL') simp
    finally show ?thesis .
  qed
  have stF0: "(st \<sigma>L)\<lparr>ii_isGenerating := False, ii_generationProgress := 0\<rparr>
      = t\<lparr>ii_isGenerating := False, ii_generationProgress := 0\<rparr>"
    using stF [of "ii_generationProgress (st \<sigma>L)"] by simp
  have top: "R = (let (r, \<sigma>3) = generateWithInstantID_try env props (ii_referenceImages t) \<sigma>2;
             \<sigma>4 = (case r of Inl e \<Rightarrow> generateWithInstantID_catch e \<sigma>3 | Inr _ \<Rightarrow> \<sigma>3)
         in ii_setGenerationProgress 0 (ii_setIsGenerating False \<sigma>4))"
    using assms(1,2) by (simp add: R_def generateWithInstantID_def \<sigma>2_def start_def Let_def)
  show thesis
  proof (cases r)
    case (Inl e)
    with loop have "generateWithInstantID_try env props (ii_referenceImages t) \<sigma>2 = (Inl e, \<sigma>L)"
      unfolding \<sigma>1_def by (rule_tac generateWithInstantID_try_Inl) simp
    with top have R: "R = ii_setGenerationProgress 0 (ii_setIsGenerating False
        (generateWithInstantID_catch e \<sigma>L))" by simp
    from Inl res obtain urls where
      a: "prs \<noteq> []" "length prs \<le> length (ii_referenceImages t)" "snd (last prs) = Inl e"
        "map snd (butlast prs) = map Inr urls" by auto
    have "log R = pre @ upload_loop_log pe files 0 prs
               @ ConsoleError ''InstantID generation error:'' e # fin"
      and "st R = t\<lparr>ii_isGenerating := False, ii_generationProgress := 0\<rparr>" and "parent R = par"
      using lL pL stF0
      by (simp_all add: R generateWithInstantID_catch_def prim_defs ii_setter_defs fin_def)
    with a show thesis by (rule upload_rejected)
  next
    case (Inr urls)
    with res have b: "length prs = length (ii_referenceImages t)" "map snd prs = map Inr urls"
      by auto
    from loop Inr have loop': "upload_reference_images env (p_user props) (ii_referenceImages t) 0 []
        (toast_success ''Uploading reference images...'' \<sigma>2) = (Inr urls, \<sigma>L)"
      by (simp add: \<sigma>1_def)
    show thesis
    proof (cases "find (\<lambda>d. d_id d = p_selectedDestination props) (p_TRAVEL_DESTINATIONS props)")
      case None
      have "log R = pre @ upload_loop_log pe files 0 prs
               @ SetGenerationProgress 40
               # ConsoleError ''InstantID generation error:'' (Error ''Invalid destination'') # fin"
        and "st R = t\<lparr>ii_isGenerating := False, ii_generationProgress := 0\<rparr>" and "parent R = par"
        using lL pL stF loop' None
        by (simp_all add: top generateWithInstantID_try_def generateWithInstantID_catch_def
            prim_defs ii_setter_defs fin_def Let_def)
      with b None show thesis by (rule invalid)
    next
      case (Some dest)
      obtain r2 w2 where ai: "ai_modifyImage env (ps dest urls) (world \<sigma>L) = (r2, w2)"
        by (cases "ai_modifyImage env (ps dest urls) (world \<sigma>L)")
      show thesis
      proof (cases r2)
        case (Inl e)
        have "log R = pre @ upload_loop_log pe files 0 prs
               @ [SetGenerationProgress 40, SetGenerationProgress 50,
                  ToastSuccess ''Processing with InstantID...'', SetGenerationProgress 70,
                  AiModifyImage (ps dest urls) (Inl e),
                  ConsoleError ''InstantID generation error:'' e] @ fin"
          and "st R = t\<lparr>ii_isGenerating := False, ii_generationProgress := 0\<rparr>" and "parent R = par"
          using lL pL stF loop' Some ai Inl
          by (simp_all add: top generateWithInstantID_try_def generateWithInstantID_catch_def
              prim_defs ii_setter_defs fin_def Let_def ps_def)
        with b Some show thesis by (rule ai_rejected)
      next
        case r2: (Inr data)
        show thesis
        proof (cases "data = None \<or> data = Some []")
          case True
          have "log R = pre @ upload_loop_log pe files 0 prs
               @ [SetGenerationProgress 40, SetGenerationProgress 50,
                  ToastSuccess ''Processing with InstantID...'', SetGenerationProgress 70,
                  AiModifyImage (ps dest urls) (Inr data), SetGenerationProgress 90,
                  ConsoleError ''InstantID generation error:'' (Error ''Failed to generate images'')]
               @ fin"
            and "st R = t\<lparr>ii_isGenerating := False, ii_generationProgress := 0\<rparr>" and "parent R = par"
            using lL pL stF loop' Some ai r2 True
            by (auto simp: top generateWithInstantID_try_def generateWithInstantID_catch_def
                prim_defs ii_setter_defs fin_def Let_def ps_def)
          with b Some True show thesis by (rule no_data)
        next
          case False
          then obtain res where rs: "data = Some res" "res \<noteq> []" by auto
          define new where "new = map (\<lambda>(index, img).
               \<lparr>gi_id = ''instant_gen_'' @ string_of_nat (date_now env w2) @ ''_'' @ string_of_nat index,
                gi_url = ir_url img, destination = d_name dest, originalImage = [],
                originalImages = Some urls, createdAt = toISOString env (date_now env w2)\<rparr>)
               (enumerate 0 res)"
          have n1: "map gi_url new = map ir_url res"
            unfolding new_def by (rule map_map_enumerate) simp
          have n2: "\<forall>g \<in> set new. destination g = d_name dest \<and> originalImages g = Some urls"
            by (auto simp: new_def)
          have "\<exists>m. log R = pre @ upload_loop_log pe files 0 prs
               @ [SetGenerationProgress 40, SetGenerationProgress 50,
                  ToastSuccess ''Processing with InstantID...'', SetGenerationProgress 70,
                  AiModifyImage (ps dest urls) (Inr (Some res)), SetGenerationProgress 90]
               @ map OnImageGenerated new
               @ [SetGenerationProgress 100, ToastSuccess m, SetIsGenerating False,
                  SetGenerationProgress 0]"
            and "st R = t\<lparr>ii_isGenerating := False, ii_generationProgress := 0\<rparr>"
            and "parent R = fold (onImageGenerated props) new par"
            using lL pL stF loop' Some ai r2 rs
            by (simp_all add: top generateWithInstantID_try_def fold_call_onImageGenerated
                prim_defs ii_setter_defs Let_def ps_def new_def)
          with b Some rs(2) n1 n2 show thesis by (blast intro: success)
        qed
      qed
    qed
  qed
qed

subsection \<open>The training run is simulated\<close>





subsection \<open>The single-photo flow\<close>

lemma TRAVEL_DESTINATIONS_ids:
  "map d_id TRAVEL_DESTINATIONS
     = [''paris'', ''tokyo'', ''bali'', ''nyc'', ''santorini'', ''machu-picchu'', ''dubai'', ''iceland'']"
  by (simp add: TRAVEL_DESTINATIONS_def)

lemma find_Some_D: "find P xs = Some x \<Longrightarrow> x \<in> set xs \<and> P x"
  by (induction xs) (auto split: if_splits)

lemma valid_destination_nonempty:
  assumes "find (\<lambda>d. d_id d = sel) TRAVEL_DESTINATIONS = Some dest"
  shows "sel \<noteq> []"
proof -
  from find_Some_D [OF assms] have "sel \<in> set (map d_id TRAVEL_DESTINATIONS)" by auto
  then show ?thesis unfolding TRAVEL_DESTINATIONS_ids by auto
qed

text \<open>
  C4 as stated fails: with a selected file, the destination \<open>paris\<close> and a signed-in user,
  a storage service that rejects the upload ends the run before \<^verbatim>\<open>blink.ai.modifyImage\<close>
  is called.
\<close>

theorem single_photo_upload_rejected_counterexample:
  "selectedFile app0 = Some \<lparr>file_name = ''me.png'', file_type = ''image/png''\<rparr>
   \<and> user app0 = Some user0
   \<and> find (\<lambda>d. d_id d = selectedDestination app0) TRAVEL_DESTINATIONS = Some (hd TRAVEL_DESTINATIONS)
   \<and> view service_call_of (log (generateTravelPhoto env_reject (start app0 () 0)))
       = [Upload \<lparr>file_name = ''me.png'', file_type = ''image/png''\<rparr>]
   \<and> view ai_call_of (log (generateTravelPhoto env_reject (start app0 () 0))) = []"
  by (simp add: gtp_defs env_reject_def env_ok_def app0_def user0_def TRAVEL_DESTINATIONS_def)

text \<open>
  C4, amended. The single-photo flow runs upload, then AI call, then display. In every run
  of \<^verbatim>\<open>generateTravelPhoto\<close> with a selected file, a valid destination and a signed-in
  user, the first call to the platform is the upload of the selected file. When that upload
  returns a public URL, the calls are that upload and then one \<^verbatim>\<open>blink.ai.modifyImage\<close>
  with exactly that URL as the single reference image and \<open>n = 3\<close> if \<^verbatim>\<open>generateMultiple\<close>
  else \<open>1\<close>. When that call returns a non-empty result, one image per result is prepended
  to \<^verbatim>\<open>generatedImages\<close>, with the URL of the result, the display name of the destination
  and the uploaded URL as original image. When the upload is rejected, it is the only call
  and \<^verbatim>\<open>generatedImages\<close> is unchanged.
\<close>

theorem single_photo_flow:
  fixes s :: AppState and p :: 'p and w :: 'w and env :: "'w Env"
  assumes "selectedFile s = Some f" and "user s = Some u"
    and "find (\<lambda>d. d_id d = selectedDestination s) TRAVEL_DESTINATIONS = Some dest"
  defines "R \<equiv> generateTravelPhoto env (start s p w)"
  shows "(\<exists>rest. view service_call_of (log R) = Upload f # rest)
       \<and> (\<forall>url. view upload (log R) = [(f, Inr url)] \<longrightarrow>
             view service_call_of (log R)
               = [Upload f,
                  ModifyImage \<lparr>mp_images = [url],
                    mp_prompt = (if useCustomModel s \<and> map_option status (currentModel s) = Some Ready
                                 then loraEnhancedPrompt dest else travelPhotoPrompt dest),
                    mp_quality = ''high'', mp_size = ''1024x1024'',
                    mp_n = (if generateMultiple s then 3 else 1)\<rparr>])
       \<and> (\<forall>url imgs. view upload (log R) = [(f, Inr url)]
               \<and> view ai_answer (log R) = [Inr (Some imgs)] \<and> imgs \<noteq> [] \<longrightarrow>
             (\<exists>new. generatedImages (st R) = new @ generatedImages s
                \<and> map gi_url new = map ir_url imgs
                \<and> (\<forall>g \<in> set new. destination g = d_name dest \<and> originalImage g = url)))
       \<and> (view upload_rejected (log R) \<noteq> [] \<longrightarrow>
             view service_call_of (log R) = [Upload f] \<and> generatedImages (st R) = generatedImages s)"
proof -
  from assms(3) have ne: "selectedDestination s \<noteq> []" by (rule valid_destination_nonempty)
  from assms(1,2) ne show ?thesis
  proof (cases rule: gtp_cases [where env = env and p = p and w = w])
    case (upload_rejected path e)
    then show ?thesis by (simp add: R_def)
  next
    case (invalid path url)
    with assms(3) show ?thesis by simp
  next
    case (ai_rejected path url dest' e)
    with assms(3) show ?thesis by (auto simp: R_def)
  next
    case (no_data path url dest' data)
    with assms(3) show ?thesis by (auto simp: R_def)
  next
    case (success path url dest' imgs new m)
    with assms(3) show ?thesis by (auto simp: R_def)
  qed
qed

lemma app0_photo_eval:
  "view upload (log (generateTravelPhoto env_ok (start app0 () 0)))
     = [(\<lparr>file_name = ''me.png'', file_type = ''image/png''\<rparr>, Inr ''cdn/me.png'')]"
  "view ai_answer (log (generateTravelPhoto env_ok (start app0 () 0)))
     = [Inr (Some [\<lparr>ir_url = ''r0''\<rparr>])]"
  by (simp_all add: gtp_defs env_ok_def app0_def user0_def TRAVEL_DESTINATIONS_def
      canned_results_def)

theorem single_photo_flow_witness:
  "selectedFile app0 = Some \<lparr>file_name = ''me.png'', file_type = ''image/png''\<rparr>
   \<and> user app0 = Some user0
   \<and> find (\<lambda>d. d_id d = selectedDestination app0) TRAVEL_DESTINATIONS = Some (hd TRAVEL_DESTINATIONS)
   \<and> view service_call_of (log (generateTravelPhoto env_ok (start app0 () 0)))
       = [Upload \<lparr>file_name = ''me.png'', file_type = ''image/png''\<rparr>,
          ModifyImage \<lparr>mp_images = [''cdn/me.png''],
                       mp_prompt = travelPhotoPrompt (hd TRAVEL_DESTINATIONS),
                       mp_quality = ''high'', mp_size = ''1024x1024'', mp_n = 1\<rparr>]
   \<and> (\<exists>new. generatedImages (st (generateTravelPhoto env_ok (start app0 () 0))) = new
         \<and> map gi_url new = [''r0'']
         \<and> (\<forall>g \<in> set new. destination g = ''Paris, France'' \<and> originalImage g = ''cdn/me.png''))"
proof -
  have h1: "selectedFile app0 = Some \<lparr>file_name = ''me.png'', file_type = ''image/png''\<rparr>"
    and h2: "user app0 = Some user0"
    and h3: "find (\<lambda>d. d_id d = selectedDestination app0) TRAVEL_DESTINATIONS
               = Some (hd TRAVEL_DESTINATIONS)"
    by (simp_all add: app0_def TRAVEL_DESTINATIONS_def)
  have a: "useCustomModel app0 = False" "generateMultiple app0 = False" "generatedImages app0 = []"
    "d_name (hd TRAVEL_DESTINATIONS) = ''Paris, France''"
    by (simp_all add: app0_def TRAVEL_DESTINATIONS_def)
  from single_photo_flow [OF h1 h2 h3, of env_ok "()" 0] app0_photo_eval a
  have "view service_call_of (log (generateTravelPhoto env_ok (start app0 () 0)))
       = [Upload \<lparr>file_name = ''me.png'', file_type = ''image/png''\<rparr>,
          ModifyImage \<lparr>mp_images = [''cdn/me.png''],
                       mp_prompt = travelPhotoPrompt (hd TRAVEL_DESTINATIONS),
                       mp_quality = ''high'', mp_size = ''1024x1024'', mp_n = 1\<rparr>]"
    and "\<exists>new. generatedImages (st (generateTravelPhoto env_ok (start app0 () 0))) = new
         \<and> map gi_url new = [''r0'']
         \<and> (\<forall>g \<in> set new. destination g = ''Paris, France'' \<and> originalImage g = ''cdn/me.png'')"
    by simp_all
  with h1 h2 h3 show ?thesis by blast
qed

subsection \<open>The runs of the other handlers, case by case\<close>

lemmas pm_setter_defs = pm_setIsGenerating_def pm_setGenerationProgress_def

lemma generateWithPhotoMaker_try_Inl:
  assumes "upload_photomaker_images env (p_user props) (pm_referenceImages s0) 0 []
             (toast_success ''Uploading reference images...'' \<sigma>) = (Inl e, \<sigma>L)"
  shows "generateWithPhotoMaker_try env props s0 \<sigma> = (Inl e, \<sigma>L)"
  using assms by (simp add: generateWithPhotoMaker_try_def Let_def)

lemma pm_cases [consumes 2, case_names upload_rejected invalid ai_rejected no_data success]:
  fixes t :: PhotoMakerState and par :: 'p and w :: 'w and env :: "'w Env" and props :: "'p ModuleProps"
  assumes "pm_referenceImages t \<noteq> []" "p_selectedDestination props \<noteq> []"
  defines "R \<equiv> generateWithPhotoMaker env props (start t par w)"
  defines "pe \<equiv> \<lambda>j. SetGenerationProgress ((of_nat j / of_nat (length (pm_referenceImages t))) * 25)"
  defines "files \<equiv> map img_file (pm_referenceImages t)"
  defines "pre \<equiv> [SetIsGenerating True, SetGenerationProgress 0,
                   ToastSuccess ''Uploading reference images...'']"
  defines "ps \<equiv> \<lambda>dest urls.
     \<lparr>mp_images = urls, mp_prompt = photoMaker_final_prompt dest (customPrompt t),
      mp_quality = ''high'', mp_size = ''1024x1024'', mp_n = (if pm_generateMultiple t then 4 else 2)\<rparr>"
  defines "fin \<equiv> [ToastError ''Failed to generate PhotoMaker photos. Please try again.'',
                   SetIsGenerating False, SetGenerationProgress 0]"
  obtains
    (upload_rejected) e prs urls where
      "prs \<noteq> []" "length prs \<le> length (pm_referenceImages t)" "snd (last prs) = Inl e"
      "map snd (butlast prs) = map Inr urls"
      "log R = pre @ upload_loop_log pe files 0 prs
               @ ConsoleError ''PhotoMaker generation error:'' e # fin"
      "st R = t\<lparr>pm_isGenerating := False, pm_generationProgress := 0\<rparr>" "parent R = par"
  | (invalid) prs urls where
      "length prs = length (pm_referenceImages t)" "map snd prs = map Inr urls"
      "find (\<lambda>d. d_id d = p_selectedDestination props) (p_TRAVEL_DESTINATIONS props) = None"
      "log R = pre @ upload_loop_log pe files 0 prs
               @ SetGenerationProgress 35
               # ConsoleError ''PhotoMaker generation error:'' (Error ''Invalid destination'') # fin"
      "st R = t\<lparr>pm_isGenerating := False, pm_generationProgress := 0\<rparr>" "parent R = par"
  | (ai_rejected) prs urls dest e where
      "length prs = length (pm_referenceImages t)" "map snd prs = map Inr urls"
      "find (\<lambda>d. d_id d = p_selectedDestination props) (p_TRAVEL_DESTINATIONS props) = Some dest"
      "log R = pre @ upload_loop_log pe files 0 prs
               @ [SetGenerationProgress 35, SetGenerationProgress 45,
                  ToastSuccess ''Processing with PhotoMaker...'', SetGenerationProgress 60,
                  AiModifyImage (ps dest urls) (Inl e),
                  ConsoleError ''PhotoMaker generation error:'' e] @ fin"
      "st R = t\<lparr>pm_isGenerating := False, pm_generationProgress := 0\<rparr>" "parent R = par"
  | (no_data) prs urls dest data where
      "length prs = length (pm_referenceImages t)" "map snd prs = map Inr urls"
      "find (\<lambda>d. d_id d = p_selectedDestination props) (p_TRAVEL_DESTINATIONS props) = Some dest"
      "data = None \<or> data = Some []"
      "log R = pre @ upload_loop_log pe files 0 prs
               @ [SetGenerationProgress 35, SetGenerationProgress 45,
                  ToastSuccess ''Processing with PhotoMaker...'', SetGenerationProgress 60,
                  AiModifyImage (ps dest urls) (Inr data), SetGenerationProgress 85,
                  ConsoleError ''PhotoMaker generation error:'' (Error ''Failed to generate images'')]
               @ fin"
      "st R = t\<lparr>pm_isGenerating := False, pm_generationProgress := 0\<rparr>" "parent R = par"
  | (success) prs urls dest res new m where
      "length prs = length (pm_referenceImages t)" "map snd prs = map Inr urls"
      "find (\<lambda>d. d_id d = p_selectedDestination props) (p_TRAVEL_DESTINATIONS props) = Some dest"
      "res \<noteq> []" "map gi_url new = map ir_url res"
      "\<forall>g \<in> set new. destination g = d_name dest \<and> originalImages g = Some urls"
      "log R = pre @ upload_loop_log pe files 0 prs
               @ [SetGenerationProgress 35, SetGenerationProgress 45,
                  ToastSuccess ''Processing with PhotoMaker...'', SetGenerationProgress 60,
                  AiModifyImage (ps dest urls) (Inr (Some res)), SetGenerationProgress 85]
               @ map OnImageGenerated new
               @ [SetGenerationProgress 100, ToastSuccess m, SetIsGenerating False,
                  SetGenerationProgress 0]"
      "st R = t\<lparr>pm_isGenerating := False, pm_generationProgress := 0\<rparr>"
      "parent R = fold (onImageGenerated props) new par"
proof -
  define \<sigma>2 where "\<sigma>2 = pm_setGenerationProgress 0 (pm_setIsGenerating True (start t par w))"
  define \<sigma>1 where "\<sigma>1 = toast_success ''Uploading reference images...'' \<sigma>2"
  have l1: "log \<sigma>1 = pre" and p1: "parent \<sigma>1 = par"
    and s1: "(st \<sigma>1)\<lparr>pm_generationProgress := 0\<rparr> = t\<lparr>pm_isGenerating := True, pm_generationProgress := 0\<rparr>"
    by (simp_all add: \<sigma>1_def \<sigma>2_def prim_defs start_def pm_setter_defs pre_def)
  obtain r \<sigma>L where loop: "upload_photomaker_images env (p_user props) (pm_referenceImages t) 0 [] \<sigma>1 = (r, \<sigma>L)"
    by (cases "upload_photomaker_images env (p_user props) (pm_referenceImages t) 0 [] \<sigma>1")
  from upload_photomaker_images_log [of env "p_user props" "pm_referenceImages t" 0 "[]" \<sigma>1] loop l1 p1
  obtain prs where
    lL: "log \<sigma>L = pre @ upload_loop_log pe files 0 prs" and pL: "parent \<sigma>L = par"
    and sL: "(st \<sigma>L)\<lparr>pm_generationProgress := 0\<rparr> = (st \<sigma>1)\<lparr>pm_generationProgress := 0\<rparr>"
    and res: "case r of
               Inr urls' \<Rightarrow> length prs = length (pm_referenceImages t) - 0
                  \<and> (\<exists>new. map snd prs = map Inr new \<and> urls' = [] @ new)
             | Inl e \<Rightarrow> 0 + length prs \<le> length (pm_referenceImages t) \<and> prs \<noteq> [] \<and> snd (last prs) = Inl e
                  \<and> (\<exists>new. map snd (butlast prs) = map Inr new)"
    by (auto simp: pe_def files_def)
  from sL s1 have sL': "(st \<sigma>L)\<lparr>pm_generationProgress := 0\<rparr> = t\<lparr>pm_isGenerating := True, pm_generationProgress := 0\<rparr>"
    by simp
  have stF: "(st \<sigma>L)\<lparr>pm_generationProgress := a, pm_isGenerating := False, pm_generationProgress := 0\<rparr>
      = t\<lparr>pm_isGenerating := False, pm_generationProgress := 0\<rparr>" for a
  proof -
    have "(st \<sigma>L)\<lparr>pm_generationProgress := a, pm_isGenerating := False, pm_generationProgress := 0\<rparr>
        = ((st \<sigma>L)\<lparr>pm_generationProgress := 0\<rparr>)\<lparr>pm_isGenerating := False\<rparr>" by simp
    also have "\<dots> = t\<lparr>pm_isGenerating := False, pm_generationProgress := 0\<rparr>"
      by (simp only: sL') simp
    finally show ?thesis .
  qed
  have stF0: "(st \<sigma>L)\<lparr>pm_isGenerating := False, pm_generationProgress := 0\<rparr>
      = t\<lparr>pm_isGenerating := False, pm_generationProgress := 0\<rparr>"
    using stF [of "pm_generationProgress (st \<sigma>L)"] by simp
  have top: "R = (let (r, \<sigma>3) = generateWithPhotoMaker_try env props t \<sigma>2;
             \<sigma>4 = (case r of Inl e \<Rightarrow> generateWithPhotoMaker_catch e \<sigma>3 | Inr _ \<Rightarrow> \<sigma>3)
         in pm_setGenerationProgress 0 (pm_setIsGenerating False \<sigma>4))"
    using assms(1,2) by (simp add: R_def generateWithPhotoMaker_def \<sigma>2_def start_def Let_def)
  show thesis
  proof (cases r)
    case (Inl e)
    with loop have "generateWithPhotoMaker_try env props t \<sigma>2 = (Inl e, \<sigma>L)"
      unfolding \<sigma>1_def by (rule_tac generateWithPhotoMaker_try_Inl) simp
    with top have R: "R = pm_setGenerationProgress 0 (pm_setIsGenerating False
        (generateWithPhotoMaker_catch e \<sigma>L))" by simp
    from Inl res obtain urls where
      a: "prs \<noteq> []" "length prs \<le> length (pm_referenceImages t)" "snd (last prs) = Inl e"
        "map snd (butlast prs) = map Inr urls" by auto
    have "log R = pre @ upload_loop_log pe files 0 prs
               @ ConsoleError ''PhotoMaker generation error:'' e # fin"
      and "st R = t\<lparr>pm_isGenerating := False, pm_generationProgress := 0\<rparr>" and "parent R = par"
      using lL pL stF0
      by (simp_all add: R generateWithPhotoMaker_catch_def prim_defs pm_setter_defs fin_def)
    with a show thesis by (rule upload_rejected)
  next
    case (Inr urls)
    with res have b: "length prs = length (pm_referenceImages t)" "map snd prs = map Inr urls"
      by auto
    from loop Inr have loop': "upload_photomaker_images env (p_user props) (pm_referenceImages t) 0 []
        (toast_success ''Uploading reference images...'' \<sigma>2) = (Inr urls, \<sigma>L)"
      by (simp add: \<sigma>1_def)
    show thesis
    proof (cases "find (\<lambda>d. d_id d = p_selectedDestination props) (p_TRAVEL_DESTINATIONS props)")
      case None
      have "log R = pre @ upload_loop_log pe files 0 prs
               @ SetGenerationProgress 35
               # ConsoleError ''PhotoMaker generation error:'' (Error ''Invalid destination'') # fin"
        and "st R = t\<lparr>pm_isGenerating := False, pm_generationProgress := 0\<rparr>" and "parent R = par"
        using lL pL stF loop' None
        by (simp_all add: top generateWithPhotoMaker_try_def generateWithPhotoMaker_catch_def
            prim_defs pm_setter_defs fin_def Let_def)
      with b None show thesis by (rule invalid)
    next
      case (Some dest)
      obtain r2 w2 where ai: "ai_modifyImage env (ps dest urls) (world \<sigma>L) = (r2, w2)"
        by (cases "ai_modifyImage env (ps dest urls) (world \<sigma>L)")
      show thesis
      proof (cases r2)
        case (Inl e)
        have "log R = pre @ upload_loop_log pe files 0 prs
               @ [SetGenerationProgress 35, SetGenerationProgress 45,
                  ToastSuccess ''Processing with PhotoMaker...'', SetGenerationProgress 60,
                  AiModifyImage (ps dest urls) (Inl e),
                  ConsoleError ''PhotoMaker generation error:'' e] @ fin"
          and "st R = t\<lparr>pm_isGenerating := False, pm_generationProgress := 0\<rparr>" and "parent R = par"
          using lL pL stF loop' Some ai Inl
          by (simp_all add: top generateWithPhotoMaker_try_def generateWithPhotoMaker_catch_def
              prim_defs pm_setter_defs fin_def Let_def ps_def)
        with b Some show thesis by (rule ai_rejected)
      next
        case r2: (Inr data)
        show thesis
        proof (cases "data = None \<or> data = Some []")
          case True
          have "log R = pre @ upload_loop_log pe files 0 prs
               @ [SetGenerationProgress 35, SetGenerationProgress 45,
                  ToastSuccess ''Processing with PhotoMaker...'', SetGenerationProgress 60,
                  AiModifyImage (ps dest urls) (Inr data), SetGenerationProgress 85,
                  ConsoleError ''PhotoMaker generation error:'' (Error ''Failed to generate images'')]
               @ fin"
            and "st R = t\<lparr>pm_isGenerating := False, pm_generationProgress := 0\<rparr>" and "parent R = par"
            using lL pL stF loop' Some ai r2 True
            by (auto simp: top generateWithPhotoMaker_try_def generateWithPhotoMaker_catch_def
                prim_defs pm_setter_defs fin_def Let_def ps_def)
          with b Some True show thesis by (rule no_data)
        next
          case False
          then obtain res where rs: "data = Some res" "res \<noteq> []" by auto
          define new where "new = map (\<lambda>(index, img).
               \<lparr>gi_id = ''photomaker_gen_'' @ string_of_nat (date_now env w2) @ ''_'' @ string_of_nat index,
                gi_url = ir_url img, destination = d_name dest, originalImage = [],
                originalImages = Some urls, createdAt = toISOString env (date_now env w2)\<rparr>)
               (enumerate 0 res)"
          have n1: "map gi_url new = map ir_url res"
            unfolding new_def by (rule map_map_enumerate) simp
          have n2: "\<forall>g \<in> set new. destination g = d_name dest \<and> originalImages g = Some urls"
            by (auto simp: new_def)
          have "\<exists>m. log R = pre @ upload_loop_log pe files 0 prs
               @ [SetGenerationProgress 35, SetGenerationProgress 45,
                  ToastSuccess ''Processing with PhotoMaker...'', SetGenerationProgress 60,
                  AiModifyImage (ps dest urls) (Inr (Some res)), SetGenerationProgress 85]
               @ map OnImageGenerated new
               @ [SetGenerationProgress 100, ToastSuccess m, SetIsGenerating False,
                  SetGenerationProgress 0]"
            and "st R = t\<lparr>pm_isGenerating := False, pm_generationProgress := 0\<rparr>"
            and "parent R = fold (onImageGenerated props) new par"
            using lL pL stF loop' Some ai r2 rs
            by (simp_all add: top generateWithPhotoMaker_try_def fold_call_onImageGenerated
                prim_defs pm_setter_defs Let_def ps_def new_def)
          with b Some rs(2) n1 n2 show thesis by (blast intro: success)
        qed
      qed
    qed
  qed
qed

lemmas fs_defs = generateWithFaceSwap_def generateWithFaceSwap_try_def generateWithFaceSwap_catch_def
  fs_setIsGenerating_def fs_setGenerationProgress_def prim_defs start_def Let_def
  fold_call_onImageGenerated

lemma fs_cases [consumes 2, case_names upload_rejected invalid scene_rejected no_scene
    swap_rejected no_data success]:
  fixes t :: FaceSwapState and par :: 'p and w :: 'w and env :: "'w Env" and props :: "'p ModuleProps"
  assumes "facePortrait t = Some portrait" "p_selectedDestination props \<noteq> []"
  defines "R \<equiv> generateWithFaceSwap env props (start t par w)"
  defines "pre \<equiv> [SetIsGenerating True, SetGenerationProgress 0,
                   ToastSuccess ''Uploading face portrait...'']"
  defines "gp \<equiv> \<lambda>dest. \<lparr>gp_prompt = scenePrompt dest, gp_quality = ''high'',
                           gp_size = ''1024x1024'', gp_n = 1\<rparr>"
  defines "mp \<equiv> \<lambda>dest scene url.
     \<lparr>mp_images = [ir_url scene, url], mp_prompt = faceSwapPrompt dest,
      mp_quality = ''high'', mp_size = ''1024x1024'', mp_n = 3\<rparr>"
  defines "fin \<equiv> [ToastError ''Failed to generate face-swapped photos. Please try again.'',
                   SetIsGenerating False, SetGenerationProgress 0]"
  defines "st' \<equiv> t\<lparr>fs_isGenerating := False, fs_generationProgress := 0\<rparr>"
  obtains
    (upload_rejected) path e where
      "log R = pre @ StorageUpload (img_file portrait) path True (Inl e)
               # ConsoleError ''Face swap generation error:'' e # fin"
      "st R = st'" "parent R = par"
  | (invalid) path url where
      "find (\<lambda>d. d_id d = p_selectedDestination props) (p_TRAVEL_DESTINATIONS props) = None"
      "log R = pre @ [StorageUpload (img_file portrait) path True (Inr url),
                      SetGenerationProgress 25,
                      ConsoleError ''Face swap generation error:'' (Error ''Invalid destination'')]
               @ fin"
      "st R = st'" "parent R = par"
  | (scene_rejected) path url dest e where
      "find (\<lambda>d. d_id d = p_selectedDestination props) (p_TRAVEL_DESTINATIONS props) = Some dest"
      "log R = pre @ [StorageUpload (img_file portrait) path True (Inr url),
                      SetGenerationProgress 25, SetGenerationProgress 40,
                      ToastSuccess ''Generating travel scene...'',
                      AiGenerateImage (gp dest) (Inl e),
                      ConsoleError ''Face swap generation error:'' e] @ fin"
      "st R = st'" "parent R = par"
  | (no_scene) path url dest data where
      "find (\<lambda>d. d_id d = p_selectedDestination props) (p_TRAVEL_DESTINATIONS props) = Some dest"
      "data = None \<or> data = Some []"
      "log R = pre @ [StorageUpload (img_file portrait) path True (Inr url),
                      SetGenerationProgress 25, SetGenerationProgress 40,
                      ToastSuccess ''Generating travel scene...'',
                      AiGenerateImage (gp dest) (Inr data),
                      ConsoleError ''Face swap generation error:''
                        (Error ''Failed to generate travel scene'')] @ fin"
      "st R = st'" "parent R = par"
  | (swap_rejected) path url dest scene rest e where
      "find (\<lambda>d. d_id d = p_selectedDestination props) (p_TRAVEL_DESTINATIONS props) = Some dest"
      "log R = pre @ [StorageUpload (img_file portrait) path True (Inr url),
                      SetGenerationProgress 25, SetGenerationProgress 40,
                      ToastSuccess ''Generating travel scene...'',
                      AiGenerateImage (gp dest) (Inr (Some (scene # rest))),
                      SetGenerationProgress 65,
                      ToastSuccess ''Performing face swap integration...'',
                      AiModifyImage (mp dest scene url) (Inl e),
                      ConsoleError ''Face swap generation error:'' e] @ fin"
      "st R = st'" "parent R = par"
  | (no_data) path url dest scene rest data where
      "find (\<lambda>d. d_id d = p_selectedDestination props) (p_TRAVEL_DESTINATIONS props) = Some dest"
      "data = None \<or> data = Some []"
      "log R = pre @ [StorageUpload (img_file portrait) path True (Inr url),
                      SetGenerationProgress 25, SetGenerationProgress 40,
                      ToastSuccess ''Generating travel scene...'',
                      AiGenerateImage (gp dest) (Inr (Some (scene # rest))),
                      SetGenerationProgress 65,
                      ToastSuccess ''Performing face swap integration...'',
                      AiModifyImage (mp dest scene url) (Inr data),
                      SetGenerationProgress 90,
                      ConsoleError ''Face swap generation error:''
                        (Error ''Failed to generate face-swapped images'')] @ fin"
      "st R = st'" "parent R = par"
  | (success) path url dest scene rest res new m where
      "find (\<lambda>d. d_id d = p_selectedDestination props) (p_TRAVEL_DESTINATIONS props) = Some dest"
      "res \<noteq> []" "map gi_url new = map ir_url res"
      "\<forall>g \<in> set new. destination g = d_name dest \<and> originalImage g = url"
      "log R = pre @ [StorageUpload (img_file portrait) path True (Inr url),
                      SetGenerationProgress 25, SetGenerationProgress 40,
                      ToastSuccess ''Generating travel scene...'',
                      AiGenerateImage (gp dest) (Inr (Some (scene # rest))),
                      SetGenerationProgress 65,
                      ToastSuccess ''Performing face swap integration...'',
                      AiModifyImage (mp dest scene url) (Inr (Some res)),
                      SetGenerationProgress 90]
               @ map OnImageGenerated new
               @ [SetGenerationProgress 100, ToastSuccess m, SetIsGenerating False,
                  SetGenerationProgress 0]"
      "st R = st'" "parent R = fold (onImageGenerated props) new par"
proof -
  define path where "path = ''face-portraits/'' @ user_id (p_user props) @ ''/''
                 @ string_of_nat (date_now env w) @ ''-'' @ file_name (img_file portrait)"
  obtain r1 w1 where up: "storage_upload env (img_file portrait) path True w = (r1, w1)"
    by (cases "storage_upload env (img_file portrait) path True w")
  show thesis
  proof (cases r1)
    case (Inl e)
    have "log R = pre @ StorageUpload (img_file portrait) path True (Inl e)
               # ConsoleError ''Face swap generation error:'' e # fin"
      and "st R = st'" and "parent R = par"
      using assms(1,2) up Inl by (simp_all add: R_def fs_defs path_def pre_def fin_def st'_def)
    then show thesis by (rule upload_rejected)
  next
    case (Inr url)
    show thesis
    proof (cases "find (\<lambda>d. d_id d = p_selectedDestination props) (p_TRAVEL_DESTINATIONS props)")
      case None
      have "log R = pre @ [StorageUpload (img_file portrait) path True (Inr url),
                      SetGenerationProgress 25,
                      ConsoleError ''Face swap generation error:'' (Error ''Invalid destination'')]
               @ fin"
        and "st R = st'" and "parent R = par"
        using assms(1,2) up Inr None
        by (simp_all add: R_def fs_defs path_def pre_def fin_def st'_def)
      with None show thesis by (rule invalid)
    next
      case (Some dest)
      obtain r2 w2 where g: "ai_generateImage env (gp dest) w1 = (r2, w2)"
        by (cases "ai_generateImage env (gp dest) w1")
      show thesis
      proof (cases r2)
        case (Inl e)
        have "log R = pre @ [StorageUpload (img_file portrait) path True (Inr url),
                      SetGenerationProgress 25, SetGenerationProgress 40,
                      ToastSuccess ''Generating travel scene...'',
                      AiGenerateImage (gp dest) (Inl e),
                      ConsoleError ''Face swap generation error:'' e] @ fin"
          and "st R = st'" and "parent R = par"
          using assms(1,2) up Inr Some g Inl
          by (simp_all add: R_def fs_defs path_def pre_def fin_def st'_def gp_def)
        with Some show thesis by (rule scene_rejected)
      next
        case r2: (Inr data)
        show thesis
        proof (cases "data = None \<or> data = Some []")
          case True
          have "log R = pre @ [StorageUpload (img_file portrait) path True (Inr url),
                      SetGenerationProgress 25, SetGenerationProgress 40,
                      ToastSuccess ''Generating travel scene...'',
                      AiGenerateImage (gp dest) (Inr data),
                      ConsoleError ''Face swap generation error:''
                        (Error ''Failed to generate travel scene'')] @ fin"
            and "st R = st'" and "parent R = par"
            using assms(1,2) up Inr Some g r2 True
            by (auto simp: R_def fs_defs path_def pre_def fin_def st'_def gp_def)
          with Some True show thesis by (rule no_scene)
        next
          case False
          then obtain scene rest where sc: "data = Some (scene # rest)"
            by (cases data) (auto simp: neq_Nil_conv)
          obtain r3 w3 where m: "ai_modifyImage env (mp dest scene url) w2 = (r3, w3)"
            by (cases "ai_modifyImage env (mp dest scene url) w2")
          show thesis
          proof (cases r3)
            case (Inl e)
            have "log R = pre @ [StorageUpload (img_file portrait) path True (Inr url),
                      SetGenerationProgress 25, SetGenerationProgress 40,
                      ToastSuccess ''Generating travel scene...'',
                      AiGenerateImage (gp dest) (Inr (Some (scene # rest))),
                      SetGenerationProgress 65,
                      ToastSuccess ''Performing face swap integration...'',
                      AiModifyImage (mp dest scene url) (Inl e),
                      ConsoleError ''Face swap generation error:'' e] @ fin"
              and "st R = st'" and "parent R = par"
              using assms(1,2) up Inr Some g r2 sc m Inl
              by (simp_all add: R_def fs_defs path_def pre_def fin_def st'_def gp_def mp_def)
            with Some show thesis by (rule swap_rejected)
          next
            case r3: (Inr fdata)
            show thesis
            proof (cases "fdata = None \<or> fdata = Some []")
              case True
              have "log R = pre @ [StorageUpload (img_file portrait) path True (Inr url),
                      SetGenerationProgress 25, SetGenerationProgress 40,
                      ToastSuccess ''Generating travel scene...'',
                      AiGenerateImage (gp dest) (Inr (Some (scene # rest))),
                      SetGenerationProgress 65,
                      ToastSuccess ''Performing face swap integration...'',
                      AiModifyImage (mp dest scene url) (Inr fdata),
                      SetGenerationProgress 90,
                      ConsoleError ''Face swap generation error:''
                        (Error ''Failed to generate face-swapped images'')] @ fin"
                and "st R = st'" and "parent R = par"
                using assms(1,2) up Inr Some g r2 sc m r3 True
                by (auto simp: R_def fs_defs path_def pre_def fin_def st'_def gp_def mp_def)
              with Some True show thesis by (rule no_data)
            next
              case False
              then obtain res where rs: "fdata = Some res" "res \<noteq> []" by auto
              define new where "new = map (\<lambda>(index, img).
                   \<lparr>gi_id = ''faceswap_gen_'' @ string_of_nat (date_now env w3) @ ''_'' @ string_of_nat index,
                    gi_url = ir_url img, destination = d_name dest, originalImage = url,
                    originalImages = None, createdAt = toISOString env (date_now env w3)\<rparr>)
                   (enumerate 0 res)"
              have n1: "map gi_url new = map ir_url res"
                unfolding new_def by (rule map_map_enumerate) simp
              have n2: "\<forall>g \<in> set new. destination g = d_name dest \<and> originalImage g = url"
                by (auto simp: new_def)
              have l: "\<exists>m. log R = pre @ [StorageUpload (img_file portrait) path True (Inr url),
                      SetGenerationProgress 25, SetGenerationProgress 40,
                      ToastSuccess ''Generating travel scene...'',
                      AiGenerateImage (gp dest) (Inr (Some (scene # rest))),
                      SetGenerationProgress 65,
                      ToastSuccess ''Performing face swap integration...'',
                      AiModifyImage (mp dest scene url) (Inr (Some res)),
                      SetGenerationProgress 90]
                   @ map OnImageGenerated new
                   @ [SetGenerationProgress 100, ToastSuccess m, SetIsGenerating False,
                      SetGenerationProgress 0]"
                and s: "st R = st'" and pa: "parent R = fold (onImageGenerated props) new par"
                using assms(1,2) up Inr Some g r2 sc m r3 rs
                by (simp_all add: R_def fs_defs path_def pre_def st'_def gp_def mp_def new_def)
              from l obtain m where lm: "log R = pre @ [StorageUpload (img_file portrait) path True (Inr url),
                      SetGenerationProgress 25, SetGenerationProgress 40,
                      ToastSuccess ''Generating travel scene...'',
                      AiGenerateImage (gp dest) (Inr (Some (scene # rest))),
                      SetGenerationProgress 65,
                      ToastSuccess ''Performing face swap integration...'',
                      AiModifyImage (mp dest scene url) (Inr (Some res)),
                      SetGenerationProgress 90]
                   @ map OnImageGenerated new
                   @ [SetGenerationProgress 100, ToastSuccess m, SetIsGenerating False,
                      SetGenerationProgress 0]" ..
              show thesis by (rule success [OF Some rs(2) n1 n2 lm s pa])
            qed
          qed
        qed
      qed
    qed
  qed
qed

lemmas lora_defs = generateWithLoRAModel_def generateWithLoRAModel_try_def
  generateWithLoRAModel_catch_def prim_defs start_def app_setter_defs Let_def

lemma lora_cases [consumes 3, case_names invalid ai_rejected no_data success]:
  fixes s :: AppState and p :: 'p and w :: 'w and env :: "'w Env"
  assumes "selectedDestination s \<noteq> []" "user s = Some u"
    "map_option status (currentModel s) = Some Ready"
  defines "R \<equiv> generateWithLoRAModel env (start s p w)"
  defines "gp \<equiv> \<lambda>dest. \<lparr>gp_prompt = loraGenerationPrompt dest, gp_quality = ''high'',
                           gp_size = ''1024x1024'', gp_n = 3\<rparr>"
  defines "fin \<equiv> [ToastError ''Failed to generate travel photos with LoRA model. Please try again.'',
                   SetIsGenerating False, SetGenerationProgress 0]"
  obtains
    (invalid)
      "find (\<lambda>d. d_id d = selectedDestination s) TRAVEL_DESTINATIONS = None"
      "log R = [SetIsGenerating True, SetGenerationProgress 0,
                ConsoleError ''LoRA generation error:'' (Error ''Invalid destination'')] @ fin"
      "st R = s\<lparr>isGenerating := False, generationProgress := 0\<rparr>"
  | (ai_rejected) dest e where
      "find (\<lambda>d. d_id d = selectedDestination s) TRAVEL_DESTINATIONS = Some dest"
      "log R = [SetIsGenerating True, SetGenerationProgress 0, SetGenerationProgress 25,
                SetGenerationProgress 50, AiGenerateImage (gp dest) (Inl e),
                ConsoleError ''LoRA generation error:'' e] @ fin"
      "st R = s\<lparr>isGenerating := False, generationProgress := 0\<rparr>"
  | (no_data) dest data where
      "find (\<lambda>d. d_id d = selectedDestination s) TRAVEL_DESTINATIONS = Some dest"
      "data = None \<or> data = Some []"
      "log R = [SetIsGenerating True, SetGenerationProgress 0, SetGenerationProgress 25,
                SetGenerationProgress 50, AiGenerateImage (gp dest) (Inr data),
                SetGenerationProgress 75,
                ConsoleError ''LoRA generation error:'' (Error ''Failed to generate image'')] @ fin"
      "st R = s\<lparr>isGenerating := False, generationProgress := 0\<rparr>"
  | (success) dest imgs new m where
      "find (\<lambda>d. d_id d = selectedDestination s) TRAVEL_DESTINATIONS = Some dest"
      "imgs \<noteq> []" "map gi_url new = map ir_url imgs"
      "\<forall>g \<in> set new. destination g = d_name dest"
      "log R = [SetIsGenerating True, SetGenerationProgress 0, SetGenerationProgress 25,
                SetGenerationProgress 50, AiGenerateImage (gp dest) (Inr (Some imgs)),
                SetGenerationProgress 75, SetGeneratedImages (new @ generatedImages s),
                SetGenerationProgress 100, ToastSuccess m, SetIsGenerating False,
                SetGenerationProgress 0]"
      "st R = s\<lparr>generatedImages := new @ generatedImages s, isGenerating := False,
                  generationProgress := 0\<rparr>"
proof (cases "find (\<lambda>d. d_id d = selectedDestination s) TRAVEL_DESTINATIONS")
  case None
  have "log R = [SetIsGenerating True, SetGenerationProgress 0,
                ConsoleError ''LoRA generation error:'' (Error ''Invalid destination'')] @ fin"
    and "st R = s\<lparr>isGenerating := False, generationProgress := 0\<rparr>"
    using assms(1-3) None by (simp_all add: R_def lora_defs fin_def)
  with None show thesis by (rule invalid)
next
  case (Some dest)
  obtain r w1 where g: "ai_generateImage env (gp dest) w = (r, w1)"
    by (cases "ai_generateImage env (gp dest) w")
  show thesis
  proof (cases r)
    case (Inl e)
    have "log R = [SetIsGenerating True, SetGenerationProgress 0, SetGenerationProgress 25,
                SetGenerationProgress 50, AiGenerateImage (gp dest) (Inl e),
                ConsoleError ''LoRA generation error:'' e] @ fin"
      and "st R = s\<lparr>isGenerating := False, generationProgress := 0\<rparr>"
      using assms(1-3) Some g Inl by (simp_all add: R_def lora_defs fin_def gp_def)
    with Some show thesis by (rule ai_rejected)
  next
    case r: (Inr data)
    show thesis
    proof (cases "data = None \<or> data = Some []")
      case True
      have "log R = [SetIsGenerating True, SetGenerationProgress 0, SetGenerationProgress 25,
                SetGenerationProgress 50, AiGenerateImage (gp dest) (Inr data),
                SetGenerationProgress 75,
                ConsoleError ''LoRA generation error:'' (Error ''Failed to generate image'')] @ fin"
        and "st R = s\<lparr>isGenerating := False, generationProgress := 0\<rparr>"
        using assms(1-3) Some g r True by (auto simp: R_def lora_defs fin_def gp_def)
      with Some True show thesis by (rule no_data)
    next
      case False
      then obtain imgs where imgs: "data = Some imgs" "imgs \<noteq> []" by auto
      define new where "new = map (\<lambda>(index, img).
           \<lparr>gi_id = ''lora_gen_'' @ string_of_nat (date_now env w1) @ ''_'' @ string_of_nat index,
            gi_url = ir_url img, destination = d_name dest, originalImage = [],
            originalImages = None, createdAt = toISOString env (date_now env w1)\<rparr>)
           (enumerate 0 imgs)"
      have n1: "map gi_url new = map ir_url imgs"
        unfolding new_def by (rule map_map_enumerate) simp
      have n2: "\<forall>g \<in> set new. destination g = d_name dest"
        by (auto simp: new_def)
      have l: "\<exists>m. log R = [SetIsGenerating True, SetGenerationProgress 0, SetGenerationProgress 25,
                SetGenerationProgress 50, AiGenerateImage (gp dest) (Inr (Some imgs)),
                SetGenerationProgress 75, SetGeneratedImages (new @ generatedImages s),
                SetGenerationProgress 100, ToastSuccess m, SetIsGenerating False,
                SetGenerationProgress 0]"
        and st: "st R = s\<lparr>generatedImages := new @ generatedImages s, isGenerating := False,
                  generationProgress := 0\<rparr>"
        using assms(1-3) Some g r imgs by (simp_all add: R_def lora_defs gp_def new_def)
      from l obtain m where lm: "log R = [SetIsGenerating True, SetGenerationProgress 0, SetGenerationProgress 25,
                SetGenerationProgress 50, AiGenerateImage (gp dest) (Inr (Some imgs)),
                SetGenerationProgress 75, SetGeneratedImages (new @ generatedImages s),
                SetGenerationProgress 100, ToastSuccess m, SetIsGenerating False,
                SetGenerationProgress 0]" ..
      show thesis by (rule success [OF Some imgs(2) n1 n2 lm st])
    qed
  qed
qed

end
